theory Spec2Isabelle
  imports Main "HOL-Library.Sublist"
begin

section \<open>Python strings\<close>

text \<open>
  A Python \<open>str\<close> is modelled as a \<open>string\<close> whose characters are the code points
  0..255 (Latin-1).  \<open>needle in hay\<close> on strings is \<open>sublist needle hay\<close>.
\<close>

text \<open>
  \<open>str.lower()\<close> on the code points 0..255: the ASCII capitals and the Latin-1 capitals
  (0xC0..0xDE without the multiplication sign 0xD7) move up by 32, every other character
  is unchanged.
\<close>

definition upper_chars :: string where
  "upper_chars = ''ABCDEFGHIJKLMNOPQRSTUVWXYZ'' @
     [CHR 0xC0, CHR 0xC1, CHR 0xC2, CHR 0xC3, CHR 0xC4, CHR 0xC5, CHR 0xC6, CHR 0xC7,
     CHR 0xC8, CHR 0xC9, CHR 0xCA, CHR 0xCB, CHR 0xCC, CHR 0xCD, CHR 0xCE, CHR 0xCF,
     CHR 0xD0, CHR 0xD1, CHR 0xD2, CHR 0xD3, CHR 0xD4, CHR 0xD5, CHR 0xD6, CHR 0xD8,
     CHR 0xD9, CHR 0xDA, CHR 0xDB, CHR 0xDC, CHR 0xDD, CHR 0xDE]"

definition lower_chars :: string where
  "lower_chars = ''abcdefghijklmnopqrstuvwxyz'' @
     [CHR 0xE0, CHR 0xE1, CHR 0xE2, CHR 0xE3, CHR 0xE4, CHR 0xE5, CHR 0xE6, CHR 0xE7,
     CHR 0xE8, CHR 0xE9, CHR 0xEA, CHR 0xEB, CHR 0xEC, CHR 0xED, CHR 0xEE, CHR 0xEF,
     CHR 0xF0, CHR 0xF1, CHR 0xF2, CHR 0xF3, CHR 0xF4, CHR 0xF5, CHR 0xF6, CHR 0xF8,
     CHR 0xF9, CHR 0xFA, CHR 0xFB, CHR 0xFC, CHR 0xFD, CHR 0xFE]"

definition lower_char :: "char \<Rightarrow> char" where
  "lower_char c = (case map_of (zip upper_chars lower_chars) c of None \<Rightarrow> c | Some d \<Rightarrow> d)"

definition lower :: "string \<Rightarrow> string" where
  "lower s = map lower_char s"

text \<open>\<open>any(p in s for p in ps)\<close>\<close>

definition any_in :: "string list \<Rightarrow> string \<Rightarrow> bool" where
  "any_in ps s = list_ex (\<lambda>p. sublist p s) ps"

section \<open>Categorizer\<close>

definition categorize_url :: "string \<Rightarrow> string \<Rightarrow> string" where
  "categorize_url url title =
     (let u = lower url in
      if sublist ''leetcode.com'' u then ''Programming Practice''
      else if sublist ''github.com'' u then ''Code Repository''
      else if sublist ''chatgpt.com'' u \<or> sublist ''claude.ai'' u \<or> sublist ''perplexity.ai'' u
        then ''AI Assistant''
      else if sublist ''docs.google.com'' u then ''Documentation''
      else if sublist ''aws'' u then ''Cloud Services''
      else if sublist ''x.com'' u \<or> sublist ''twitter.com'' u then ''Social Media''
      else if sublist ''cricbuzz.com'' u then ''Sports News''
      else if sublist ''youtube.com'' u \<or> sublist ''music.youtube.com'' u then ''Media''
      else if sublist ''spotify.com'' u then ''Music Streaming''
      else ''General'')"

text \<open>
  The cascade as the specification words it: an ordered list of (substrings, category)
  rules, the first rule with a matching substring wins, no match is General.
\<close>

definition category_rules :: "(string list \<times> string) list" where
  "category_rules =
     [([''leetcode.com''], ''Programming Practice''),
      ([''github.com''], ''Code Repository''),
      ([''chatgpt.com'', ''claude.ai'', ''perplexity.ai''], ''AI Assistant''),
      ([''docs.google.com''], ''Documentation''),
      ([''aws''], ''Cloud Services''),
      ([''x.com'', ''twitter.com''], ''Social Media''),
      ([''cricbuzz.com''], ''Sports News''),
      ([''youtube.com'', ''music.youtube.com''], ''Media''),
      ([''spotify.com''], ''Music Streaming'')]"

fun first_match :: "(string list \<times> string) list \<Rightarrow> string \<Rightarrow> string" where
  "first_match [] u = ''General''"
| "first_match ((ps, cat) # rules) u = (if any_in ps u then cat else first_match rules u)"

section \<open>Query Interpreter: intent flags\<close>

definition exclusion_phrases :: "string list" where
  "exclusion_phrases =
     [''apart from song'', ''except song'', ''besides song'',
      ''other than song'', ''excluding song'', ''not song'', ''no song'']"

definition music_words :: "string list" where
  "music_words = [''song'', ''music'', ''sing'', ''artist'', ''track'']"

definition exclude_music :: "string \<Rightarrow> bool" where
  "exclude_music message = any_in exclusion_phrases (lower message)"

definition exclude_youtube :: "string \<Rightarrow> bool" where
  "exclude_youtube message =
     (sublist ''apart from youtube'' (lower message) \<or> sublist ''except youtube'' (lower message))"

definition is_music_query :: "string \<Rightarrow> bool" where
  "is_music_query message =
     (\<not> exclude_music message \<and> any_in music_words (lower message))"

section \<open>Retrieval Filter: exclusion decision for one candidate\<close>

text \<open>
  The metadata dictionary of a candidate; \<open>None\<close> is an absent key, so that
  \<open>meta.get(k, default)\<close> is \<open>py_get (k meta) default\<close>.
\<close>

record meta =
  m_title :: "string option"
  m_url :: "string option"
  m_domain :: "string option"
  m_visit_date :: "string option"
  m_day_name :: "string option"
  m_time_period :: "string option"
  m_content_category :: "string option"

definition py_get :: "'a option \<Rightarrow> 'a \<Rightarrow> 'a" where
  "py_get v d = (case v of None \<Rightarrow> d | Some x \<Rightarrow> x)"

text \<open>Truthiness of an \<open>Optional[str]\<close>: \<open>None\<close> and the empty string are false.\<close>

definition truthy :: "string option \<Rightarrow> bool" where
  "truthy v = (case v of None \<Rightarrow> False | Some s \<Rightarrow> s \<noteq> [])"

definition music_indicators :: "string list" where
  "music_indicators =
     [''official audio'', ''official video'', ''music video'', ''lyric'',
      ''lyrics'', ''(audio)'', ''(official)'', ''ft.'', ''feat.'']"

definition music_like_terms :: "string list" where
  "music_like_terms = ['' - '', ''official'', ''audio'', ''music'', ''ft'', ''feat'']"

definition should_exclude :: "string option \<Rightarrow> bool \<Rightarrow> bool \<Rightarrow> bool \<Rightarrow> meta \<Rightarrow> bool" where
  "should_exclude artist_filter is_music excl_music excl_youtube m =
     (let title = py_get (m_title m) '''';
          title_lower = lower title;
          domain = lower (py_get (m_domain m) '''');
          category = lower (py_get (m_content_category m) '''');
          se0 = False;
          se1 = (if truthy artist_filter \<and> is_music
                 then (if \<not> sublist (lower (py_get artist_filter '''')) title_lower
                       then True else se0)
                 else se0);
          se2 = (if excl_music
                 then (if any_in music_indicators title_lower then True
                       else if domain \<in> set [''youtube.com'', ''music.youtube.com'']
                         then (if any_in music_like_terms title_lower then True else se1)
                       else if category \<in> set [''media'', ''music streaming''] then True
                       else se1)
                 else se1);
          se3 = (if excl_youtube
                 then (if sublist ''youtube.com'' domain then True else se2)
                 else se2)
      in se3)"

section \<open>More string primitives\<close>

text \<open>
  The white space of \<open>str.split()\<close>, \<open>str.strip()\<close> and of \<open>\s\<close> in a \<open>str\<close> pattern,
  and the decimal digits of \<open>\d\<close>, among the code points 0..255.
\<close>

definition is_space :: "char \<Rightarrow> bool" where
  "is_space c = (c \<in> set [CHR 0x09, CHR 0x0A, CHR 0x0B, CHR 0x0C, CHR 0x0D, CHR 0x1C, CHR 0x1D,
                            CHR 0x1E, CHR 0x1F, CHR 0x20, CHR 0x85, CHR 0xA0])"

definition is_digit :: "char \<Rightarrow> bool" where
  "is_digit c = (c \<in> set ''0123456789'')"

definition strip :: "string \<Rightarrow> string" where
  "strip s = rev (dropWhile is_space (rev (dropWhile is_space s)))"

fun split_acc :: "string \<Rightarrow> string \<Rightarrow> string list" where
  "split_acc cur [] = (if cur = [] then [] else [cur])"
| "split_acc cur (c # cs) =
     (if is_space c then (if cur = [] then split_acc [] cs else cur # split_acc [] cs)
      else split_acc (cur @ [c]) cs)"

text \<open>\<open>s.split()\<close>\<close>

definition py_split :: "string \<Rightarrow> string list" where
  "py_split s = split_acc [] s"

text \<open>\<open>s.split(sep, 1)[0]\<close>: the part before the first occurrence of \<open>sep\<close>.\<close>

fun before_first :: "string \<Rightarrow> string \<Rightarrow> string" where
  "before_first sep [] = []"
| "before_first sep (c # cs) = (if prefix sep (c # cs) then [] else c # before_first sep cs)"

text \<open>\<open>re.sub(r'^\(\d+\)\s*', '', s)\<close>\<close>

definition strip_numeric_prefix :: "string \<Rightarrow> string" where
  "strip_numeric_prefix s =
     (case s of
        [] \<Rightarrow> s
      | c # r \<Rightarrow>
          (let ds = takeWhile is_digit r; r' = dropWhile is_digit r
           in if c = CHR ''('' \<and> ds \<noteq> [] \<and> r' \<noteq> [] \<and> hd r' = CHR '')''
              then dropWhile is_space (tl r') else s))"

text \<open>
  \<open>re.search\<close>: the matcher is tried at every position from the left, the first success
  wins.  No pattern of this program matches the empty string.
\<close>

fun search_first :: "(string \<Rightarrow> 'a option) \<Rightarrow> string \<Rightarrow> 'a option" where
  "search_first f [] = None"
| "search_first f (c # cs) =
     (case f (c # cs) of Some r \<Rightarrow> Some r | None \<Rightarrow> search_first f cs)"

text \<open>
  \<open>re.finditer\<close>: the matcher returns the captured group and the length of the whole
  match (at least one); the scan resumes behind the match.
\<close>

fun find_all :: "(string \<Rightarrow> ('a \<times> nat) option) \<Rightarrow> nat \<Rightarrow> string \<Rightarrow> 'a list" where
  "find_all f skip [] = []"
| "find_all f skip (c # cs) =
     (if skip > 0 then find_all f (skip - 1) cs
      else (case f (c # cs) of
              None \<Rightarrow> find_all f 0 cs
            | Some (g, n) \<Rightarrow> g # find_all f (n - 1) cs))"

section \<open>Artist Resolver\<close>

definition stop_words :: "string list" where
  "stop_words =
     [''songs'', ''song'', ''music'', ''by'', ''from'', ''what'', ''which'', ''show'', ''me'',
      ''did'', ''i'', ''listen'', ''to'', ''today'', ''yesterday'', ''last'', ''week'',
      ''the'', ''a'', ''an'', ''my'', ''all'', ''any'', ''that'', ''in'', ''on'']"

text \<open>
  One featuring pattern \<open>kw\.?\s+([^stops]+)\<close> (the dot only when \<open>optdot\<close>), closed by
  \<open>\)\<close> when \<open>close\<close>, tried at the start of \<open>s\<close>.  The run \<open>seg\<close> of characters outside
  \<open>stops\<close> must begin with white space and hold two characters at least; the group is
  what follows the leading white space, or the last white space when nothing follows.
\<close>

definition feat_at :: "string \<Rightarrow> bool \<Rightarrow> string \<Rightarrow> bool \<Rightarrow> string \<Rightarrow> (string \<times> nat) option" where
  "feat_at kw optdot stops close s =
     (if \<not> prefix kw s then None
      else
        (let r0 = drop (length kw) s;
             dot = (optdot \<and> r0 \<noteq> [] \<and> hd r0 = CHR ''.'');
             r1 = (if dot then tl r0 else r0);
             seg = takeWhile (\<lambda>c. c \<notin> set stops) r1;
             rest = dropWhile (\<lambda>c. c \<notin> set stops) r1;
             grp = (if dropWhile is_space seg \<noteq> [] then dropWhile is_space seg else [last seg])
         in if seg \<noteq> [] \<and> is_space (hd seg) \<and> 2 \<le> length seg \<and>
               (close \<longrightarrow> rest \<noteq> [] \<and> hd rest = CHR '')'')
            then Some (grp, length kw + (if dot then 1 else 0) + length seg + (if close then 1 else 0))
            else None))"

text \<open>The six \<open>feat_patterns\<close>, in the order of the source.\<close>

definition feat_patterns :: "(string \<Rightarrow> (string \<times> nat) option) list" where
  "feat_patterns =
     [feat_at ''(feat'' True '')'' True,
      feat_at ''(ft'' True '')'' True,
      feat_at ''feat'' True '',)'' False,
      feat_at ''ft'' True '',)'' False,
      feat_at ''featuring'' False '',)'' False,
      feat_at ''with'' False '',)'' False]"

text \<open>The artists one title adds to \<open>all_artists\<close>, in the order they are added.\<close>

definition title_artists :: "string \<Rightarrow> string list" where
  "title_artists title =
     (let title_lower = lower title;
          main = (if sublist '' - '' title
                  then [strip_numeric_prefix (strip (before_first '' - '' title))] else []);
          feats = concat (map (\<lambda>pat. map (\<lambda>g. strip_numeric_prefix (strip g))
                                         (find_all pat 0 title_lower)) feat_patterns)
      in main @ feats)"

definition all_artists :: "string list \<Rightarrow> string list" where
  "all_artists available_titles = remdups (concat (map title_artists available_titles))"

definition token_score :: "string \<Rightarrow> string \<Rightarrow> nat" where
  "token_score query_token artist_token =
     (if query_token = artist_token then 2
      else if sublist query_token artist_token \<or> sublist artist_token query_token then 1
      else 0)"

definition artist_score :: "string list \<Rightarrow> string \<Rightarrow> nat" where
  "artist_score query_tokens artist =
     (let artist_tokens = py_split (lower artist)
      in sum_list (map (\<lambda>qt. sum_list (map (token_score qt) artist_tokens)) query_tokens))"

text \<open>
  The loop over \<open>all_artists\<close>, with \<open>best_score\<close> and \<open>best_match\<close> as accumulators and the
  early return of the exact-substring case.
\<close>

fun artist_loop :: "string \<Rightarrow> string list \<Rightarrow> string list \<Rightarrow> nat \<Rightarrow> string option \<Rightarrow> string option" where
  "artist_loop q_lower query_tokens [] best_score best_match =
     (if 1 \<le> best_score then best_match else None)"
| "artist_loop q_lower query_tokens (artist # rest) best_score best_match =
     (if sublist (lower artist) q_lower then Some artist
      else
        (let score = artist_score query_tokens artist
         in if best_score < score
            then artist_loop q_lower query_tokens rest score (Some artist)
            else artist_loop q_lower query_tokens rest best_score best_match))"

text \<open>
  \<open>all_artists\<close> is a Python set of strings: the order in which the loop visits it is not
  fixed by the program (it depends on the hash seed of the process).  The parameter
  \<open>iter\<close> is that order: it maps the elements of the set to the sequence in which the
  \<open>for\<close> loop visits them, see \<open>iteration_order\<close>.
\<close>

definition extract_artist_from_query ::
    "(string list \<Rightarrow> string list) \<Rightarrow> string \<Rightarrow> string list \<Rightarrow> string option" where
  "extract_artist_from_query iter query available_titles =
     (let q_lower = lower query;
          words = py_split q_lower;
          query_tokens = filter (\<lambda>w. w \<notin> set stop_words \<and> 2 < length w) words
      in if query_tokens = [] then None
         else artist_loop q_lower query_tokens (iter (all_artists available_titles)) 0 None)"

definition iteration_order :: "(string list \<Rightarrow> string list) \<Rightarrow> bool" where
  "iteration_order iter = (\<forall>xs. set (iter xs) = set xs)"

section \<open>Numbers and dates as text\<close>

definition digit_char :: "nat \<Rightarrow> char" where
  "digit_char n = ''0123456789'' ! (n mod 10)"

text \<open>\<open>str(n)\<close> and \<open>f"{n}"\<close> for a natural number.\<close>

fun dec :: "nat \<Rightarrow> string" where
  "dec n = (if n < 10 then [digit_char n] else dec (n div 10) @ [digit_char n])"

declare dec.simps [simp del]

text \<open>\<open>f"{n:02d}"\<close>\<close>

definition pad2 :: "nat \<Rightarrow> string" where
  "pad2 n = (if n < 10 then CHR ''0'' # dec n else dec n)"

text \<open>\<open>s.zfill(2)\<close> for a string of digits.\<close>

definition zfill2 :: "string \<Rightarrow> string" where
  "zfill2 s = replicate (2 - length s) CHR ''0'' @ s"

definition digit_val :: "char \<Rightarrow> nat" where
  "digit_val c =
     (case map_of (zip ''0123456789'' [0, 1, 2, 3, 4, 5, 6, 7, 8, 9]) c of
        None \<Rightarrow> 0 | Some n \<Rightarrow> n)"

text \<open>\<open>int(s)\<close> for a string of digits.\<close>

definition nat_of_digits :: "string \<Rightarrow> nat" where
  "nat_of_digits s = foldl (\<lambda>a c. 10 * a + digit_val c) 0 s"

section \<open>The calendar of \<open>datetime\<close>\<close>

text \<open>
  The proleptic Gregorian calendar of Python's \<open>datetime\<close>: the day number of a date
  counted from 1970-01-01, and back.
\<close>

definition days_from_civil :: "int \<Rightarrow> int \<Rightarrow> int \<Rightarrow> int" where
  "days_from_civil y m d =
     (let y' = (if m \<le> 2 then y - 1 else y);
          era = y' div 400;
          yoe = y' - era * 400;
          doy = (153 * (if 2 < m then m - 3 else m + 9) + 2) div 5 + d - 1;
          doe = yoe * 365 + yoe div 4 - yoe div 100 + doy
      in era * 146097 + doe - 719468)"

definition civil_from_days :: "int \<Rightarrow> int \<times> int \<times> int" where
  "civil_from_days z =
     (let z' = z + 719468;
          era = z' div 146097;
          doe = z' - era * 146097;
          yoe = (doe - doe div 1460 + doe div 36524 - doe div 146096) div 365;
          doy = doe - (365 * yoe + yoe div 4 - yoe div 100);
          mp = (5 * doy + 2) div 153;
          d = doy - (153 * mp + 2) div 5 + 1;
          m = (if mp < 10 then mp + 3 else mp - 9);
          y = yoe + era * 400
      in (if m \<le> 2 then y + 1 else y, m, d))"

definition is_leap :: "nat \<Rightarrow> bool" where
  "is_leap y = (y mod 4 = 0 \<and> (y mod 100 \<noteq> 0 \<or> y mod 400 = 0))"

definition days_in_month :: "nat \<Rightarrow> nat \<Rightarrow> nat" where
  "days_in_month y m =
     (if m = 2 then (if is_leap y then 29 else 28)
      else if m \<in> set [4, 6, 9, 11] then 30 else 31)"

text \<open>\<open>%A\<close> and \<open>%B\<close> in the C locale; Monday is weekday 0.\<close>

definition weekday_names :: "string list" where
  "weekday_names =
     [''Monday'', ''Tuesday'', ''Wednesday'', ''Thursday'', ''Friday'', ''Saturday'', ''Sunday'']"

definition month_names :: "string list" where
  "month_names =
     [''January'', ''February'', ''March'', ''April'', ''May'', ''June'', ''July'', ''August'',
      ''September'', ''October'', ''November'', ''December'']"

definition weekday :: "nat \<Rightarrow> nat \<Rightarrow> nat \<Rightarrow> nat" where
  "weekday y m d = nat ((days_from_civil (int y) (int m) (int d) + 3) mod 7)"

text \<open>
  \<open>%Y\<close>: four digits from the year 1000 on; below, the unpadded year of the C library
  of Linux is taken.
\<close>

definition strftime_Y :: "nat \<Rightarrow> string" where
  "strftime_Y y = dec y"

text \<open>\<open>dt.strftime('%Y-%m-%d')\<close>\<close>

definition strftime_ymd :: "nat \<Rightarrow> nat \<Rightarrow> nat \<Rightarrow> string" where
  "strftime_ymd y m d = strftime_Y y @ ''-'' @ pad2 m @ ''-'' @ pad2 d"

text \<open>
  \<open>datetime.strptime(s, "%Y-%m-%d")\<close>: four digits, a month token \<open>1[0-2]|0[1-9]|[1-9]\<close>
  and a day token \<open>3[01]|[12]\d|0[1-9]|[1-9]| [1-9]\<close>, separated by hyphens and
  covering the whole string, naming a date of the calendar from year 1 on.  \<open>None\<close> is
  the \<open>ValueError\<close>.
\<close>

definition month_token :: "string \<Rightarrow> bool" where
  "month_token t =
     (case t of
        [a] \<Rightarrow> a \<in> set ''123456789''
      | [a, b] \<Rightarrow> (a = CHR ''1'' \<and> b \<in> set ''012'') \<or> (a = CHR ''0'' \<and> b \<in> set ''123456789'')
      | _ \<Rightarrow> False)"

definition day_token :: "string \<Rightarrow> bool" where
  "day_token t =
     (case t of
        [a] \<Rightarrow> a \<in> set ''123456789''
      | [a, b] \<Rightarrow> (a = CHR ''3'' \<and> b \<in> set ''01'') \<or> (a \<in> set ''12'' \<and> is_digit b)
                  \<or> (a \<in> set ''0 '' \<and> b \<in> set ''123456789'')
      | _ \<Rightarrow> False)"

definition strptime_ymd :: "string \<Rightarrow> (nat \<times> nat \<times> nat) option" where
  "strptime_ymd s =
     (let ys = take 4 s; r = drop 4 s;
          ms = takeWhile (\<lambda>c. c \<noteq> CHR ''-'') (drop 1 r);
          r' = dropWhile (\<lambda>c. c \<noteq> CHR ''-'') (drop 1 r);
          ds = drop 1 r';
          y = nat_of_digits ys; m = nat_of_digits ms;
          d = nat_of_digits (filter is_digit ds)
      in if length ys = 4 \<and> list_all is_digit ys \<and> r \<noteq> [] \<and> hd r = CHR ''-'' \<and>
            month_token ms \<and> r' \<noteq> [] \<and> day_token ds \<and> 1 \<le> y \<and> d \<le> days_in_month y m
         then Some (y, m, d) else None)"

section \<open>Query Interpreter: dates and domains\<close>

text \<open>
  The clock of the process: \<open>datetime.now()\<close> falls on the local day \<open>now_day\<close>, counted
  from 1970-01-01.
\<close>

record clock =
  now_day :: int

definition day_string :: "int \<Rightarrow> string" where
  "day_string z = (case civil_from_days z of (y, m, d) \<Rightarrow> strftime_ymd (nat y) (nat m) (nat d))"

definition current_year :: "clock \<Rightarrow> nat" where
  "current_year c = (case civil_from_days (now_day c) of (y, m, d) \<Rightarrow> nat y)"

definition months :: "(string \<times> nat) list" where
  "months =
     [(''jan'', 1), (''january'', 1), (''feb'', 2), (''february'', 2), (''mar'', 3), (''march'', 3),
      (''apr'', 4), (''april'', 4), (''may'', 5), (''jun'', 6), (''june'', 6), (''jul'', 7),
      (''july'', 7), (''aug'', 8), (''august'', 8), (''sep'', 9), (''september'', 9),
      (''oct'', 10), (''october'', 10), (''nov'', 11), (''november'', 11), (''dec'', 12),
      (''december'', 12)]"

text \<open>\<open>name\s+(\d{4})\<close> at the start of \<open>s\<close>; the group.\<close>

definition m_year_at :: "string \<Rightarrow> string \<Rightarrow> string option" where
  "m_year_at name s =
     (if prefix name s
      then (let r = drop (length name) s; r' = dropWhile is_space r
            in if r' \<noteq> r \<and> length (take 4 r') = 4 \<and> list_all is_digit (take 4 r')
               then Some (take 4 r') else None)
      else None)"

text \<open>\<open>name\s*(\d{1,2})\<close> at the start of \<open>s\<close>.\<close>

definition m1_at :: "string \<Rightarrow> string \<Rightarrow> string option" where
  "m1_at name s =
     (if prefix name s
      then (let ds = take 2 (takeWhile is_digit (dropWhile is_space (drop (length name) s)))
            in if ds \<noteq> [] then Some ds else None)
      else None)"

text \<open>
  \<open>(\d{1,2})\s*name\<close> at the start of \<open>s\<close>: two digits are tried before one.  (The
  names of this program do not begin with white space.)
\<close>

definition digits_then :: "nat \<Rightarrow> string \<Rightarrow> string \<Rightarrow> string option" where
  "digits_then n name s =
     (if length (take n s) = n \<and> list_all is_digit (take n s) \<and>
         prefix name (dropWhile is_space (drop n s))
      then Some (take n s) else None)"

definition m2_at :: "string \<Rightarrow> string \<Rightarrow> string option" where
  "m2_at name s =
     (case digits_then 2 name s of Some g \<Rightarrow> Some g | None \<Rightarrow> digits_then 1 name s)"

text \<open>
  \<open>(\d{1,2})c\<close> at the start of \<open>s\<close>, for a separator \<open>c\<close>: the group and the rest behind
  the separator.
\<close>

definition digits12_sep :: "char \<Rightarrow> string \<Rightarrow> (string \<times> string) option" where
  "digits12_sep c s =
     (let ds = takeWhile is_digit s; r = dropWhile is_digit s
      in if (length ds = 1 \<or> length ds = 2) \<and> r \<noteq> [] \<and> hd r = c then Some (ds, tl r) else None)"

text \<open>\<open>(\d{4})-(\d{1,2})-(\d{1,2})\<close> at the start of \<open>s\<close>.\<close>

definition iso_at :: "string \<Rightarrow> (string \<times> string \<times> string) option" where
  "iso_at s =
     (let y = take 4 s; r = drop 4 s
      in if length y = 4 \<and> list_all is_digit y \<and> r \<noteq> [] \<and> hd r = CHR ''-''
         then (case digits12_sep CHR ''-'' (tl r) of
                 None \<Rightarrow> None
               | Some (mo, r') \<Rightarrow>
                   (let d = take 2 (takeWhile is_digit r')
                    in if d \<noteq> [] then Some (y, mo, d) else None))
         else None)"

text \<open>\<open>(\d{1,2})/(\d{1,2})/(\d{4})\<close> at the start of \<open>s\<close>.\<close>

definition us_at :: "string \<Rightarrow> (string \<times> string \<times> string) option" where
  "us_at s =
     (let try = (\<lambda>n.
            (let mo = take n s; r = drop n s
             in if length mo = n \<and> list_all is_digit mo \<and> r \<noteq> [] \<and> hd r = CHR ''/''
                then (case digits12_sep CHR ''/'' (tl r) of
                        None \<Rightarrow> None
                      | Some (d, r') \<Rightarrow>
                          (let y = take 4 r'
                           in if length y = 4 \<and> list_all is_digit y then Some (mo, d, y) else None))
                else None))
      in (case try 2 of Some g \<Rightarrow> Some g | None \<Rightarrow> try 1))"

text \<open>The loop over the \<open>months\<close> dictionary, in its insertion order.\<close>

fun month_loop :: "nat \<Rightarrow> string \<Rightarrow> (string \<times> nat) list \<Rightarrow> string option" where
  "month_loop cy q [] = None"
| "month_loop cy q ((name, num) # rest) =
     (case search_first (m_year_at name) q of
        Some g \<Rightarrow> Some (dec (nat_of_digits g) @ ''-'' @ pad2 num)
      | None \<Rightarrow>
          (case search_first (m1_at name) q of
             Some g \<Rightarrow> Some (dec cy @ ''-'' @ pad2 num @ ''-'' @ pad2 (nat_of_digits g))
           | None \<Rightarrow>
               (case search_first (m2_at name) q of
                  Some g \<Rightarrow> Some (dec cy @ ''-'' @ pad2 num @ ''-'' @ pad2 (nat_of_digits g))
                | None \<Rightarrow>
                    if sublist name q \<and> 3 < length name then Some (dec cy @ ''-'' @ pad2 num)
                    else month_loop cy q rest)))"

definition extract_date :: "clock \<Rightarrow> string \<Rightarrow> string option" where
  "extract_date c query =
     (let q = lower query; cy = current_year c in
      if sublist ''yesterday'' q then Some (day_string (now_day c - 1))
      else if sublist ''today'' q then Some (day_string (now_day c))
      else if sublist ''last week'' q then Some (day_string (now_day c - 7))
      else if sublist ''this week'' q then Some (day_string (now_day c))
      else
        (case month_loop cy q months of
           Some r \<Rightarrow> Some r
         | None \<Rightarrow>
             (case search_first iso_at q of
                Some (y, mo, d) \<Rightarrow> Some (y @ ''-'' @ zfill2 mo @ ''-'' @ zfill2 d)
              | None \<Rightarrow>
                  (case search_first us_at q of
                     Some (mo, d, y) \<Rightarrow> Some (y @ ''-'' @ zfill2 mo @ ''-'' @ zfill2 d)
                   | None \<Rightarrow> None))))"

definition domain_mapping :: "(string \<times> string) list" where
  "domain_mapping =
     [(''youtube'', ''youtube.com''), (''spotify'', ''spotify.com''), (''github'', ''github.com''),
      (''leetcode'', ''leetcode.com''), (''google docs'', ''docs.google.com''),
      (''gmail'', ''mail.google.com''), (''x.com'', ''x.com''), (''twitter'', ''x.com'')]"

definition extract_domain :: "string \<Rightarrow> string option" where
  "extract_domain query =
     map_option snd (find (\<lambda>(k, v). sublist k (lower query)) domain_mapping)"

text \<open>
  The text \<open>chat_structured\<close> appends to the query for an extracted date: month and year
  for a value of length 7, weekday, month, day and year otherwise; nothing when
  \<open>strptime\<close> raises.
\<close>

definition render_date :: "string \<Rightarrow> string option" where
  "render_date date_filter =
     (if length date_filter = 7
      then (case strptime_ymd (date_filter @ ''-01'') of
              None \<Rightarrow> None
            | Some (y, m, d) \<Rightarrow> Some (month_names ! (m - 1) @ '' '' @ strftime_Y y))
      else (case strptime_ymd date_filter of
              None \<Rightarrow> None
            | Some (y, m, d) \<Rightarrow>
                Some (weekday_names ! weekday y m d @ '' '' @ month_names ! (m - 1) @ '' ''
                      @ pad2 d @ '' '' @ strftime_Y y)))"

text \<open>
  The granularity of an extracted date: 0 for none, 1 for a year and a month, 2 for a
  year, a month and a day (two hyphens).
\<close>

definition date_granularity :: "string option \<Rightarrow> nat" where
  "date_granularity r =
     (case r of
        None \<Rightarrow> 0
      | Some s \<Rightarrow> (if 2 \<le> length (filter (\<lambda>c. c = CHR ''-'') s) then 2 else 1))"

section \<open>Retrieval Filter\<close>

text \<open>
  The exceptions of the model.  \<open>CancelledError\<close> derives from \<open>BaseException\<close> and not
  from \<open>Exception\<close>, so \<open>except Exception\<close> does not catch it.
\<close>

datatype py_error = IndexError | ValueError | OverflowError | ProviderError | CancelledError

definition is_Exception :: "py_error \<Rightarrow> bool" where
  "is_Exception e = (e \<noteq> CancelledError)"

text \<open>The date and domain tests of the structured pass, flag \<open>match\<close> updated in order.\<close>

definition candidate_matches :: "string option \<Rightarrow> string option \<Rightarrow> meta \<Rightarrow> bool" where
  "candidate_matches date_filter domain_filter m =
     (let match0 = True;
          match1 =
            (if truthy date_filter
             then (let df = py_get date_filter ''''; visit_date = py_get (m_visit_date m) ''''
                   in if length df = 7
                      then (if \<not> prefix df visit_date then False else match0)
                      else (if visit_date \<noteq> df then False else match0))
             else match0);
          match2 =
            (if truthy domain_filter
             then (if py_get (m_domain m) '''' \<noteq> py_get domain_filter '''' then False else match1)
             else match1)
      in match2)"

text \<open>
  \<open>for i, meta in enumerate(metas_h)\<close> of the structured pass; \<open>docs_h[i]\<close> raises
  IndexError when the document list is shorter than the metadata list.
\<close>

fun structured_loop ::
    "string option \<Rightarrow> string option \<Rightarrow> string list \<Rightarrow> nat \<Rightarrow> meta list
       \<Rightarrow> py_error + (string list \<times> meta list)" where
  "structured_loop date_filter domain_filter docs_h i [] = Inr ([], [])"
| "structured_loop date_filter domain_filter docs_h i (m # ms) =
     (if candidate_matches date_filter domain_filter m
      then (if i < length docs_h
            then (case structured_loop date_filter domain_filter docs_h (i + 1) ms of
                    Inl e \<Rightarrow> Inl e
                  | Inr (filtered_docs, filtered_metas) \<Rightarrow>
                      Inr (docs_h ! i # filtered_docs, m # filtered_metas))
            else Inl IndexError)
      else structured_loop date_filter domain_filter docs_h (i + 1) ms)"

definition structured_pass ::
    "string option \<Rightarrow> string option \<Rightarrow> string list \<Rightarrow> meta list
       \<Rightarrow> py_error + (string list \<times> meta list)" where
  "structured_pass date_filter domain_filter docs_h metas_h =
     (if truthy date_filter \<or> truthy domain_filter
      then structured_loop date_filter domain_filter docs_h 0 metas_h
      else Inr (docs_h, metas_h))"

text \<open>
  The exclusion loop; a missing document is replaced by the empty string
  (\<open>docs_h[i] if i < len(docs_h) else ''\<close>).
\<close>

fun exclusion_loop ::
    "(meta \<Rightarrow> bool) \<Rightarrow> string list \<Rightarrow> nat \<Rightarrow> meta list \<Rightarrow> string list \<times> meta list" where
  "exclusion_loop excl docs_h i [] = ([], [])"
| "exclusion_loop excl docs_h i (m # ms) =
     (let (final_docs, final_metas) = exclusion_loop excl docs_h (i + 1) ms
      in if \<not> excl m
         then ((if i < length docs_h then docs_h ! i else '''') # final_docs, m # final_metas)
         else (final_docs, final_metas))"

text \<open>\<open>xs[:k]\<close> for an \<open>int\<close> k: a negative k counts from the end.\<close>

definition py_slice_to :: "int \<Rightarrow> 'a list \<Rightarrow> 'a list" where
  "py_slice_to k xs = (if 0 \<le> k then take (nat k) xs else take (length xs - nat (- k)) xs)"

text \<open>
  The filter stage of \<open>chat_structured\<close>, from the raw candidates to the truncated lists,
  with the artist filter it resolved.
\<close>

definition retrieval_filter ::
    "(string list \<Rightarrow> string list) \<Rightarrow> string \<Rightarrow> string option \<Rightarrow> string option \<Rightarrow> int
       \<Rightarrow> string list \<Rightarrow> meta list \<Rightarrow> py_error + (string list \<times> meta list \<times> string option)" where
  "retrieval_filter iter message date_filter domain_filter top_k docs_h metas_h =
     (case structured_pass date_filter domain_filter docs_h metas_h of
        Inl e \<Rightarrow> Inl e
      | Inr (docs1, metas1) \<Rightarrow>
          (let available_titles = map (\<lambda>m. py_get (m_title m) '''') metas1;
               artist_filter =
                 (if is_music_query message
                  then extract_artist_from_query iter message available_titles else None);
               (final_docs, final_metas) =
                 exclusion_loop
                   (should_exclude artist_filter (is_music_query message)
                      (exclude_music message) (exclude_youtube message))
                   docs1 0 metas1
           in Inr (py_slice_to top_k final_docs, py_slice_to top_k final_metas, artist_filter)))"

text \<open>
  When no candidate artist is an exact substring of the question, the loop keeps the
  first artist of highest score in iteration order, provided that score is at least 1.
  \<open>unambiguous\<close> says that the set of candidates leaves the iteration order no choice:
  either the question has no token left (the resolver returns \<open>None\<close> at once), or at
  most one candidate is a substring of the lower-cased question and, when none is, at
  most one candidate reaches a highest score of at least 1.
\<close>

definition exact_artists :: "string \<Rightarrow> string list \<Rightarrow> string list" where
  "exact_artists q_lower artists = filter (\<lambda>a. sublist (lower a) q_lower) artists"

definition query_tokens_of :: "string \<Rightarrow> string list" where
  "query_tokens_of query =
     filter (\<lambda>w. w \<notin> set stop_words \<and> 2 < length w) (py_split (lower query))"

definition best_artists :: "string list \<Rightarrow> string list \<Rightarrow> string list" where
  "best_artists query_tokens artists =
     filter (\<lambda>a. 1 \<le> artist_score query_tokens a \<and>
                 (\<forall>b \<in> set artists. artist_score query_tokens b \<le> artist_score query_tokens a))
       artists"

definition unambiguous :: "string \<Rightarrow> string list \<Rightarrow> bool" where
  "unambiguous query artists =
     (query_tokens_of query = [] \<or>
      (length (remdups (exact_artists (lower query) artists)) \<le> 1 \<and>
       (exact_artists (lower query) artists = [] \<longrightarrow>
          length (remdups (best_artists (query_tokens_of query) artists)) \<le> 1)))"

text \<open>The titles the artist resolver is given: those of the candidates the structured pass kept.\<close>

definition available_titles_of ::
    "string option \<Rightarrow> string option \<Rightarrow> string list \<Rightarrow> meta list \<Rightarrow> string list" where
  "available_titles_of date_filter domain_filter docs_h metas_h =
     (case structured_pass date_filter domain_filter docs_h metas_h of
        Inl e \<Rightarrow> []
      | Inr (docs1, metas1) \<Rightarrow> map (\<lambda>m. py_get (m_title m) '''') metas1)"

section \<open>Stable document identifiers\<close>

text \<open>
  A Python \<open>float\<close>: the finite value \<open>m * 2 ^ e\<close>, a NaN, or an infinity with its sign.
\<close>

datatype py_float = Finite int int | NaN | Infinity bool

text \<open>The fields of \<open>HistoryItem\<close>, without the optional \<open>extracted_content\<close>.\<close>

record HistoryItem =
  item_id :: string
  item_lastVisitTime :: py_float
  item_title :: string
  item_url :: string
  item_domain :: string
  item_dayOfWeek :: int
  item_hour :: int
  item_collectedAt :: py_float

text \<open>
  What a run of the program takes from outside.  \<open>py_hash\<close> is the built-in \<open>hash\<close> on
  strings, which CPython salts anew for every process.  \<open>local_day_of_ms t\<close> is the standard
  library's \<open>datetime.fromtimestamp(t / 1000).strftime('%Y-%m-%d')\<close> in the time zone of
  the process: the float division, the rounding to microseconds and the local calendar
  day, or the exception raised for a NaN, an infinity or a time outside the range of
  \<open>datetime\<close>.
\<close>

record process =
  py_hash :: "string \<Rightarrow> int"
  local_day_of_ms :: "py_float \<Rightarrow> py_error + string"

text \<open>\<open>abs(hash(item.url)) % (10**9)\<close>\<close>

definition url_number :: "process \<Rightarrow> HistoryItem \<Rightarrow> nat" where
  "url_number p item = nat (\<bar>py_hash p (item_url item)\<bar> mod 10 ^ 9)"

definition stable_doc_id :: "process \<Rightarrow> HistoryItem \<Rightarrow> py_error + string" where
  "stable_doc_id p item =
     (case local_day_of_ms p (item_lastVisitTime item) of
        Inl e \<Rightarrow> Inl e
      | Inr vdate \<Rightarrow>
          Inr (''hist:'' @ item_domain item @ '':'' @ vdate @ '':'' @ dec (url_number p item)))"

section \<open>The chat endpoint behind the retrieval\<close>

record source =
  src_url :: string
  src_title :: string
  src_meta :: string

record ChatResponse =
  resp_success :: bool
  resp_answer :: string
  resp_sources :: "source list"

definition mk_source :: "meta \<Rightarrow> source" where
  "mk_source m =
     \<lparr>src_url = py_get (m_url m) '''',
      src_title = py_get (m_title m) (py_get (m_domain m) ''Source''),
      src_meta = strip (py_get (m_visit_date m) '''' @ '' '' @ py_get (m_day_name m) '''' @ '' ''
                        @ py_get (m_time_period m) '''')\<rparr>"

text \<open>\<open>metas[i]\<close> for every index of \<open>docs\<close>; a shorter metadata list raises IndexError.\<close>

definition mk_sources :: "string list \<Rightarrow> meta list \<Rightarrow> py_error + source list" where
  "mk_sources docs metas =
     (if length metas < length docs then Inl IndexError
      else Inr (map mk_source (take (length docs) metas)))"

text \<open>The hints appended to the query that is embedded.\<close>

definition enhanced_query :: "clock \<Rightarrow> string \<Rightarrow> string" where
  "enhanced_query c message =
     (let date_filter = extract_date c message;
          q_lower = lower message;
          e1 = message @ (if truthy date_filter
                          then (case render_date (py_get date_filter '''') of
                                  None \<Rightarrow> '''' | Some t \<Rightarrow> '' '' @ t)
                          else '''')
      in if is_music_query message
         then e1 @ '' music audio video song''
              @ (if sublist ''piano'' q_lower then '' piano acoustic instrumental'' else '''')
              @ (if sublist ''guitar'' q_lower then '' guitar acoustic'' else '''')
              @ (if sublist ''rain'' q_lower then '' rain'' else '''')
              @ (if sublist ''danc'' q_lower then '' dancing dance'' else '''')
              @ (if any_in [''girl'', ''woman'', ''female'', ''she''] q_lower
                 then '' female woman girl'' else '''')
              @ (if any_in [''boy'', ''man'', ''male'', ''he''] q_lower
                 then '' male man boy'' else '''')
              @ (if sublist ''duet'' q_lower \<or> sublist ''together'' q_lower
                 then '' duet collaboration featuring'' else '''')
         else if exclude_music message then e1 @ '' browsing web article page website''
         else e1)"

text \<open>The three answers of an empty result.\<close>

definition no_results_answer :: "string option \<Rightarrow> string option \<Rightarrow> string option \<Rightarrow> string" where
  "no_results_answer artist_filter date_filter domain_filter =
     (if truthy artist_filter
      then ''No songs featuring '' @ py_get artist_filter '''' @ '' found.''
      else if truthy date_filter \<and> truthy domain_filter
      then ''No '' @ py_get domain_filter '''' @ '' activity found from ''
           @ py_get date_filter '''' @ ''.''
      else ''No matching results found.'')"

text \<open>
  \<open>chat_structured\<close> from the point where the vector store has answered with \<open>docs_h\<close>
  and \<open>metas_h\<close>.  \<open>Inl\<close> is the exception that the endpoint turns into HTTP 500.  The
  answer text of a non-empty result is composed by the parameter \<open>compose\<close>, which stands
  for the answer builder of the source.
\<close>

definition chat_structured ::
    "clock \<Rightarrow> (string list \<Rightarrow> string list) \<Rightarrow> (string \<Rightarrow> string option \<Rightarrow> meta list \<Rightarrow> string)
       \<Rightarrow> string \<Rightarrow> int \<Rightarrow> string list \<Rightarrow> meta list \<Rightarrow> py_error + ChatResponse" where
  "chat_structured c iter compose message top_k docs_h metas_h =
     (let date_filter = extract_date c message;
          domain_filter = extract_domain message
      in if docs_h = []
         then Inr \<lparr>resp_success = True, resp_answer = ''No matching history found.'',
                   resp_sources = []\<rparr>
         else
           (case retrieval_filter iter message date_filter domain_filter top_k docs_h metas_h of
              Inl e \<Rightarrow> Inl e
            | Inr (docs, metas, artist_filter) \<Rightarrow>
                if docs = []
                then Inr \<lparr>resp_success = True,
                          resp_answer = no_results_answer artist_filter date_filter domain_filter,
                          resp_sources = []\<rparr>
                else (case mk_sources docs metas of
                        Inl e \<Rightarrow> Inl e
                      | Inr srcs \<Rightarrow>
                          Inr \<lparr>resp_success = True,
                               resp_answer = compose message artist_filter metas,
                               resp_sources = srcs\<rparr>)))"

section \<open>Memory Distiller\<close>

text \<open>
  \<open>str.upper()\<close> on the code points 0..255, as far as it stays within them; the three
  characters whose capitals lie outside are left as they are, none of them has a capital
  N, O or E.
\<close>

definition upper_char :: "char \<Rightarrow> char" where
  "upper_char c = (case map_of (zip lower_chars upper_chars) c of None \<Rightarrow> c | Some d \<Rightarrow> d)"

definition upper :: "string \<Rightarrow> string" where
  "upper s = map upper_char s"

record mem_entry =
  mem_id :: string
  mem_document :: string
  mem_embeddings :: "int list list"
  mem_user_id :: string
  mem_ts :: string

text \<open>
  The collaborators of the distiller, each of which may raise: the chat completion
  (\<open>chat_complete\<close>), the embedding of documents (\<open>embedding_client()\<close> and
  \<open>embed_documents\<close>), and the \<open>add\<close> to the memory collection of a user (\<open>col_memory\<close>
  and \<open>mem_col.add\<close>; \<open>Some e\<close> when it raises \<open>e\<close>); and the two readings of
  \<open>datetime.utcnow()\<close>.
\<close>

record services =
  chat_complete :: "(string \<times> string) list \<Rightarrow> py_error + string"
  embed_documents :: "string list \<Rightarrow> py_error + int list list"
  mem_add :: "string \<Rightarrow> mem_entry \<Rightarrow> py_error option"
  utc_timestamp :: nat
  utc_isoformat :: string

definition distill_prompt :: "string \<Rightarrow> string \<Rightarrow> (string \<times> string) list" where
  "distill_prompt question answer =
     [(''system'', ''Condense user preference or a durable fact from the exchange in <= 2 short sentences. If nothing durable, reply with 'NONE'.''),
      (''user'', ''Q: '' @ question @ [CHR 0x0A] @ ''A: '' @ answer)]"

text \<open>\<open>not summary or summary.strip().upper().startswith("NONE")\<close>\<close>

definition nothing_durable :: "string \<Rightarrow> bool" where
  "nothing_durable summary = (summary = [] \<or> prefix ''NONE'' (upper (strip summary)))"

text \<open>
  The result is \<open>Inl e\<close> when the exception \<open>e\<close> reaches the caller, \<open>Inr None\<close> when the
  function returns without storing, and \<open>Inr (Some entry)\<close> when \<open>entry\<close> was added.
\<close>

definition distill_and_store_memory ::
    "services \<Rightarrow> string \<Rightarrow> string \<Rightarrow> string \<Rightarrow> py_error + mem_entry option" where
  "distill_and_store_memory sv user_id question answer =
     (case chat_complete sv (distill_prompt question answer) of
        Inl e \<Rightarrow> (if is_Exception e then Inr None else Inl e)
      | Inr summary \<Rightarrow>
          if nothing_durable summary then Inr None
          else
            (case embed_documents sv [summary] of
               Inl e \<Rightarrow> Inl e
             | Inr vec \<Rightarrow>
                 (let entry = \<lparr>mem_id = ''mem:'' @ dec (utc_timestamp sv), mem_document = summary,
                                mem_embeddings = vec, mem_user_id = user_id,
                                mem_ts = utc_isoformat sv\<rparr>
                  in case mem_add sv user_id entry of
                       Some e \<Rightarrow> Inl e
                     | None \<Rightarrow> Inr (Some entry))))"

section \<open>Example inputs\<close>

definition artist_a_titles :: "string list" where
  "artist_a_titles = [''Artist A - Song One'', ''Artist B feat. Artist A - Song Two'']"

definition cooking_video :: meta where
  "cooking_video =
     \<lparr>m_title = Some ''How to bake sourdough bread'',
      m_url = Some ''https://www.youtube.com/watch?v=abc'', m_domain = Some ''youtube.com'',
      m_visit_date = Some ''2024-03-05'', m_day_name = Some ''Tuesday'',
      m_time_period = Some ''Evening'', m_content_category = Some ''Media''\<rparr>"

definition spotify_page :: meta where
  "spotify_page =
     \<lparr>m_title = Some ''Discover Weekly'',
      m_url = Some ''https://open.spotify.com/playlist/xyz'', m_domain = Some ''open.spotify.com'',
      m_visit_date = Some ''2024-03-05'', m_day_name = Some ''Tuesday'',
      m_time_period = Some ''Evening'', m_content_category = Some ''Music Streaming''\<rparr>"

definition momsen :: meta where
  "momsen =
     \<lparr>m_title = Some ''Taylor Momsen - Heaven'',
      m_url = Some ''https://www.youtube.com/watch?v=m1'', m_domain = Some ''youtube.com'',
      m_visit_date = Some ''2024-03-05'', m_day_name = Some ''Tuesday'',
      m_time_period = Some ''Evening'', m_content_category = Some ''Media''\<rparr>"

definition dayne :: meta where
  "dayne =
     \<lparr>m_title = Some ''Taylor Dayne - Tell It'',
      m_url = Some ''https://www.youtube.com/watch?v=d1'', m_domain = Some ''youtube.com'',
      m_visit_date = Some ''2024-03-05'', m_day_name = Some ''Tuesday'',
      m_time_period = Some ''Evening'', m_content_category = Some ''Media''\<rparr>"

text \<open>
  A visit of a video at 2024-03-05 23:00:00 UTC, and runs of the program on a machine in
  UTC, given as far as the visit needs them: the day of its time stamp and the hash of
  its URL.  \<open>run_seed_1\<close> and \<open>run_seed_2\<close> hold the values of \<open>hash\<close> on the URL
  \<open>https://www.youtube.com/watch?v=abc\<close> in CPython 3.11 started with
  \<open>PYTHONHASHSEED=1\<close> and with \<open>PYTHONHASHSEED=2\<close>.
\<close>

definition video_visit :: "string \<Rightarrow> HistoryItem" where
  "video_visit u =
     \<lparr>item_id = ''1'', item_lastVisitTime = Finite 1709679600000 0, item_title = ''A video'',
      item_url = u, item_domain = ''youtube.com'', item_dayOfWeek = 2, item_hour = 23,
      item_collectedAt = Finite 1709680000000 0\<rparr>"

definition utc_day_of_visit :: "py_float \<Rightarrow> py_error + string" where
  "utc_day_of_visit t = (if t = Finite 1709679600000 0 then Inr ''2024-03-05'' else Inl ValueError)"

definition utc_run :: "(string \<Rightarrow> int) \<Rightarrow> process" where
  "utc_run h = \<lparr>py_hash = h, local_day_of_ms = utc_day_of_visit\<rparr>"

definition run_seed_1 :: process where
  "run_seed_1 =
     utc_run (\<lambda>s. if s = ''https://www.youtube.com/watch?v=abc''
                   then - 1309691353282174230 else 0)"

definition run_seed_2 :: process where
  "run_seed_2 =
     utc_run (\<lambda>s. if s = ''https://www.youtube.com/watch?v=abc''
                   then - 2666925957764271405 else 0)"

definition tuesday_clock :: clock where
  "tuesday_clock = \<lparr>now_day = 19787\<rparr>"

definition no_compose :: "string \<Rightarrow> string option \<Rightarrow> meta list \<Rightarrow> string" where
  "no_compose message artist_filter metas = ''''"

definition working_services :: services where
  "working_services =
     \<lparr>chat_complete = (\<lambda>messages. Inr ''The user prefers jazz piano.''),
      embed_documents = (\<lambda>texts. Inr (map (\<lambda>t. [1, 2, 3]) texts)),
      mem_add = (\<lambda>user_id entry. None),
      utc_timestamp = 1709679600, utc_isoformat = ''2024-03-05T23:00:00''\<rparr>"

definition chat_down :: services where
  "chat_down = working_services \<lparr>chat_complete := (\<lambda>messages. Inl ProviderError)\<rparr>"

definition embed_down :: services where
  "embed_down = working_services \<lparr>embed_documents := (\<lambda>texts. Inl ProviderError)\<rparr>"

definition store_down :: services where
  "store_down = working_services \<lparr>mem_add := (\<lambda>user_id entry. Some ProviderError)\<rparr>"

section \<open>Facts about strings\<close>

lemma lower_append: "lower (xs @ ys) = lower xs @ lower ys"
  by (simp add: lower_def)

lemma sublist_lower: "sublist n s \<Longrightarrow> sublist (lower n) (lower s)"
  unfolding lower_def by (rule map_mono_sublist)

lemma sublist_lower_lit: "lower n = n \<Longrightarrow> sublist n s \<Longrightarrow> sublist n (lower s)"
  using sublist_lower [of n s] by simp

lemma lower_github: "lower ''github.com'' = ''github.com''"
  by (simp add: lower_def lower_char_def upper_chars_def lower_chars_def)

section \<open>The categorizer cascade\<close>

text \<open>
  C9 (as amended).  \<open>categorize_url\<close> is the ordered cascade of substring checks on the
  lower-cased URL: it equals the first-match evaluation of the rule list Programming
  Practice, Code Repository, AI Assistant, Documentation, Cloud Services, Social Media,
  Sports News, Media, Music Streaming, with General when no rule matches, and it does not
  look at the title.  A URL that contains both "github.com" and "aws" yields
  "Code Repository" provided its lower-cased form does not contain "leetcode.com", the
  one rule of higher priority.
\<close>

theorem categorize_url_cascade:
  "categorize_url url title = first_match category_rules (lower url) \<and>
   (sublist ''github.com'' url \<and> sublist ''aws'' url \<and> \<not> sublist ''leetcode.com'' (lower url)
      \<longrightarrow> categorize_url url title = ''Code Repository'')"
proof
  show "categorize_url url title = first_match category_rules (lower url)"
    by (simp add: categorize_url_def category_rules_def any_in_def Let_def)
next
  show "sublist ''github.com'' url \<and> sublist ''aws'' url \<and> \<not> sublist ''leetcode.com'' (lower url)
      \<longrightarrow> categorize_url url title = ''Code Repository''"
    using sublist_lower_lit [OF lower_github, of url]
    by (simp add: categorize_url_def Let_def)
qed

theorem categorize_url_cascade_witness:
  "sublist ''github.com'' ''https://github.com/aws/aws-cli'' \<and>
   sublist ''aws'' ''https://github.com/aws/aws-cli'' \<and>
   \<not> sublist ''leetcode.com'' (lower ''https://github.com/aws/aws-cli'') \<and>
   categorize_url ''https://github.com/aws/aws-cli'' ''aws-cli'' = ''Code Repository''"
proof -
  have h: "sublist ''github.com'' ''https://github.com/aws/aws-cli'' \<and>
   sublist ''aws'' ''https://github.com/aws/aws-cli'' \<and>
   \<not> sublist ''leetcode.com'' (lower ''https://github.com/aws/aws-cli'')"
    by code_simp
  with categorize_url_cascade [of "''https://github.com/aws/aws-cli''" "''aws-cli''"]
  show ?thesis by blast
qed

text \<open>
  The claim as stated fails: a URL that contains "github.com" and "aws" and also
  "leetcode.com" is Programming Practice.
\<close>

theorem categorize_url_github_aws_counterexample:
  "sublist ''github.com'' ''https://leetcode.com/?next=github.com/aws'' \<and>
   sublist ''aws'' ''https://leetcode.com/?next=github.com/aws'' \<and>
   categorize_url ''https://leetcode.com/?next=github.com/aws'' '''' = ''Programming Practice'' \<and>
   categorize_url ''https://leetcode.com/?next=github.com/aws'' '''' \<noteq> ''Code Repository''"
  by code_simp

section \<open>Exclusion and music intent\<close>

lemma exclude_music_not_music: "exclude_music message \<Longrightarrow> \<not> is_music_query message"
  by (simp add: is_music_query_def)

text \<open>
  C4.  When one of the exclusion phrases occurs in the lower-cased question, music intent
  is false, whatever trigger words occur; exclude-music and music-intent are never both
  true.
\<close>

theorem exclusion_suppresses_music_intent:
  "(p \<in> set exclusion_phrases \<and> sublist p (lower message) \<longrightarrow> \<not> is_music_query message) \<and>
   \<not> (exclude_music message \<and> is_music_query message)"
  by (auto simp add: is_music_query_def exclude_music_def any_in_def list_ex_iff)

theorem exclusion_suppresses_music_intent_witness:
  "''apart from song'' \<in> set exclusion_phrases \<and>
   sublist ''apart from song'' (lower ''What did I read apart from songs?'') \<and>
   sublist ''song'' (lower ''What did I read apart from songs?'') \<and>
   \<not> is_music_query ''What did I read apart from songs?''"
proof -
  have h: "''apart from song'' \<in> set exclusion_phrases \<and>
   sublist ''apart from song'' (lower ''What did I read apart from songs?'') \<and>
   sublist ''song'' (lower ''What did I read apart from songs?'')"
    by code_simp
  with exclusion_suppresses_music_intent
         [of "''apart from song''" "''What did I read apart from songs?''"]
  show ?thesis by blast
qed

section \<open>The music exclusion of the exclusion pass\<close>

text \<open>
  C1 (as amended).  For a question that triggers exclude-music, a candidate is dropped
  exactly when (a) its lower-cased title contains a music-indicator phrase; or (a) is
  false, its domain is youtube.com or music.youtube.com and the title contains a
  music-like token; or (a) is false, its domain is neither of the two and its category is
  Media or Music Streaming; or the question also excludes YouTube and the domain contains
  "youtube.com".  The three music conditions are an if/elif chain, not a disjunction: on a
  YouTube domain the category is not consulted.
\<close>

theorem music_exclusion_rule:
  "exclude_music message \<Longrightarrow>
   should_exclude artist_filter (is_music_query message) (exclude_music message)
       (exclude_youtube message) m =
     (let title_lower = lower (py_get (m_title m) '''');
          domain = lower (py_get (m_domain m) '''');
          category = lower (py_get (m_content_category m) '''');
          youtube = (domain = ''youtube.com'' \<or> domain = ''music.youtube.com'')
      in any_in music_indicators title_lower
         \<or> (\<not> any_in music_indicators title_lower \<and> youtube \<and> any_in music_like_terms title_lower)
         \<or> (\<not> any_in music_indicators title_lower \<and> \<not> youtube \<and>
               (category = ''media'' \<or> category = ''music streaming''))
         \<or> (exclude_youtube message \<and> sublist ''youtube.com'' domain))"
  by (auto simp add: should_exclude_def exclude_music_not_music Let_def)

theorem music_exclusion_rule_witness:
  "exclude_music ''what did i read apart from songs'' \<and>
   should_exclude None (is_music_query ''what did i read apart from songs'')
       (exclude_music ''what did i read apart from songs'')
       (exclude_youtube ''what did i read apart from songs'') spotify_page"
proof -
  have h: "exclude_music ''what did i read apart from songs''" by code_simp
  have t: "\<not> any_in music_indicators (lower ''Discover Weekly'')"
     "lower ''open.spotify.com'' = ''open.spotify.com''"
     "lower ''Music Streaming'' = ''music streaming''" by code_simp+
  show ?thesis
    using music_exclusion_rule [OF h, of None spotify_page] h t
    by (simp add: spotify_page_def py_get_def Let_def)
qed

text \<open>
  The claim as stated fails: a video on youtube.com of category Media whose title has no
  indicator phrase and no music-like token satisfies (c) and is kept.
\<close>

theorem music_exclusion_disjunction_counterexample:
  "exclude_music ''what did i read apart from songs'' \<and>
   lower (py_get (m_content_category cooking_video) '''') = ''media'' \<and>
   \<not> should_exclude None (is_music_query ''what did i read apart from songs'')
       (exclude_music ''what did i read apart from songs'')
       (exclude_youtube ''what did i read apart from songs'') cooking_video"
  by code_simp

section \<open>The artist loop\<close>

lemma artist_loop_exact:
  "a \<in> set L \<Longrightarrow> sublist (lower a) q \<Longrightarrow> \<forall>b\<in>set L. sublist (lower b) q \<longrightarrow> b = a
   \<Longrightarrow> artist_loop q toks L bs bm = Some a"
proof (induction L arbitrary: bs bm)
  case Nil
  then show ?case by simp
next
  case (Cons x xs)
  show ?case
  proof (cases "sublist (lower x) q")
    case True
    then have "x = a" using Cons.prems(3) by simp
    then show ?thesis using True by simp
  next
    case False
    then have "x \<noteq> a" using Cons.prems(2) by blast
    then have ax: "a \<in> set xs" using Cons.prems(1) by simp
    have u: "\<forall>b\<in>set xs. sublist (lower b) q \<longrightarrow> b = a" using Cons.prems(3) by simp
    show ?thesis using False Cons.IH [OF ax Cons.prems(2) u] by (simp add: Let_def)
  qed
qed

lemma artist_loop_settled:
  "\<forall>b\<in>set L. \<not> sublist (lower b) q \<Longrightarrow> \<forall>b\<in>set L. artist_score toks b \<le> bs
   \<Longrightarrow> artist_loop q toks L bs bm = (if 1 \<le> bs then bm else None)"
proof (induction L arbitrary: bs bm)
  case Nil
  then show ?case by simp
next
  case (Cons x xs)
  have n: "\<not> sublist (lower x) q" using Cons.prems(1) by simp
  have s: "\<not> bs < artist_score toks x" using Cons.prems(2) by (simp add: not_less)
  have nx: "\<forall>b\<in>set xs. \<not> sublist (lower b) q" using Cons.prems(1) by simp
  have sx: "\<forall>b\<in>set xs. artist_score toks b \<le> bs" using Cons.prems(2) by simp
  show ?case using n s Cons.IH [OF nx sx] by (simp add: Let_def)
qed

lemma artist_loop_best:
  "\<forall>b\<in>set L. \<not> sublist (lower b) q \<Longrightarrow> a \<in> set L
   \<Longrightarrow> \<forall>b\<in>set L. b \<noteq> a \<longrightarrow> artist_score toks b < artist_score toks a
   \<Longrightarrow> bs < artist_score toks a
   \<Longrightarrow> artist_loop q toks L bs bm = Some a"
proof (induction L arbitrary: bs bm)
  case Nil
  then show ?case by simp
next
  case (Cons x xs)
  have nsx: "\<not> sublist (lower x) q" using Cons.prems(1) by simp
  have nx: "\<forall>b\<in>set xs. \<not> sublist (lower b) q" using Cons.prems(1) by simp
  show ?case
  proof (cases "x = a")
    case True
    have le: "\<forall>b\<in>set xs. artist_score toks b \<le> artist_score toks a"
    proof
      fix b assume b: "b \<in> set xs"
      show "artist_score toks b \<le> artist_score toks a"
      proof (cases "b = a")
        case True
        then show ?thesis by simp
      next
        case False
        then have "artist_score toks b < artist_score toks a" using Cons.prems(3) b by simp
        then show ?thesis by simp
      qed
    qed
    have one: "1 \<le> artist_score toks a" using Cons.prems(4) by simp
    have "artist_loop q toks xs (artist_score toks a) (Some a) = Some a"
      using artist_loop_settled [OF nx le, of "Some a"] one by simp
    then show ?thesis using True nsx Cons.prems(4) by (simp add: Let_def)
  next
    case False
    then have ax: "a \<in> set xs" using Cons.prems(2) by simp
    have lt: "artist_score toks x < artist_score toks a" using False Cons.prems(3) by simp
    have bx: "\<forall>b\<in>set xs. b \<noteq> a \<longrightarrow> artist_score toks b < artist_score toks a"
      using Cons.prems(3) by simp
    show ?thesis
      using Cons.IH [OF nx ax bx lt] Cons.IH [OF nx ax bx Cons.prems(4)] nsx
      by (simp add: Let_def)
  qed
qed

lemma at_most_one:
  assumes "length (remdups xs) \<le> 1" and "a \<in> set xs" and "b \<in> set xs"
  shows "a = b"
proof (cases "remdups xs")
  case Nil
  then have "set xs = {}" by (metis set_remdups set_empty)
  then show ?thesis using assms(2) by simp
next
  case (Cons y ys)
  then have "ys = []" using assms(1) by simp
  then have "set xs = {y}" using Cons by (metis set_remdups list.simps(15) set_empty2 list.set(1))
  then show ?thesis using assms(2,3) by simp
qed

text \<open>
  Two visiting orders of the same set of candidates give the same artist when the set
  leaves no choice.
\<close>

lemma artist_loop_order:
  assumes st: "set L1 = set L2"
    and ex: "length (remdups (filter (\<lambda>a. sublist (lower a) q) L1)) \<le> 1"
    and be: "filter (\<lambda>a. sublist (lower a) q) L1 = [] \<longrightarrow>
             length (remdups (best_artists toks L1)) \<le> 1"
  shows "artist_loop q toks L1 0 None = artist_loop q toks L2 0 None"
proof (cases "\<exists>a\<in>set L1. sublist (lower a) q")
  case True
  then obtain a where a1: "a \<in> set L1" and a2: "sublist (lower a) q" by blast
  have uniq: "\<forall>b\<in>set L1. sublist (lower b) q \<longrightarrow> b = a"
  proof (intro ballI impI)
    fix b assume b: "b \<in> set L1" "sublist (lower b) q"
    have "a \<in> set (filter (\<lambda>a. sublist (lower a) q) L1)" using a1 a2 by simp
    moreover have "b \<in> set (filter (\<lambda>a. sublist (lower a) q) L1)" using b by simp
    ultimately show "b = a" using at_most_one [OF ex] by blast
  qed
  have uniq2: "\<forall>b\<in>set L2. sublist (lower b) q \<longrightarrow> b = a" using uniq st by simp
  have a3: "a \<in> set L2" using a1 st by simp
  have "artist_loop q toks L1 0 None = Some a" using a1 a2 uniq by (rule artist_loop_exact)
  moreover have "artist_loop q toks L2 0 None = Some a" using a3 a2 uniq2 by (rule artist_loop_exact)
  ultimately show ?thesis by simp
next
  case False
  then have n1: "\<forall>b\<in>set L1. \<not> sublist (lower b) q" by simp
  then have n2: "\<forall>b\<in>set L2. \<not> sublist (lower b) q" using st by simp
  have fe: "filter (\<lambda>a. sublist (lower a) q) L1 = []" using n1 by (simp add: filter_empty_conv)
  have be': "length (remdups (best_artists toks L1)) \<le> 1" using be fe by blast
  show ?thesis
  proof (cases "\<exists>a\<in>set L1. 1 \<le> artist_score toks a")
    case False
    then have z1: "\<forall>b\<in>set L1. artist_score toks b \<le> 0" by (simp add: not_le)
    then have z2: "\<forall>b\<in>set L2. artist_score toks b \<le> 0" using st by simp
    have "artist_loop q toks L1 0 None = None"
      using artist_loop_settled [OF n1 z1, of None] by simp
    moreover have "artist_loop q toks L2 0 None = None"
      using artist_loop_settled [OF n2 z2, of None] by simp
    ultimately show ?thesis by simp
  next
    case True
    then obtain c where c: "c \<in> set L1" "1 \<le> artist_score toks c" by blast
    have ne: "set L1 \<noteq> {}" using c(1) by auto
    define mx where "mx = Max (artist_score toks ` set L1)"
    have "mx \<in> artist_score toks ` set L1" unfolding mx_def using ne by (intro Max_in) simp_all
    then obtain a where a1: "a \<in> set L1" and a2: "artist_score toks a = mx" by blast
    have ub: "\<And>b. b \<in> set L1 \<Longrightarrow> artist_score toks b \<le> mx"
      unfolding mx_def by (intro Max_ge) simp_all
    have "1 \<le> mx" using ub [OF c(1)] c(2) by simp
    then have pos: "0 < artist_score toks a" using a2 by simp
    have abest: "a \<in> set (best_artists toks L1)"
      using a1 a2 ub \<open>1 \<le> mx\<close> by (simp add: best_artists_def)
    have lt: "\<forall>b\<in>set L1. b \<noteq> a \<longrightarrow> artist_score toks b < artist_score toks a"
    proof (intro ballI impI)
      fix b assume b: "b \<in> set L1" "b \<noteq> a"
      show "artist_score toks b < artist_score toks a"
      proof (rule ccontr)
        assume "\<not> artist_score toks b < artist_score toks a"
        then have "artist_score toks b = mx" using ub [OF b(1)] a2 by simp
        then have "b \<in> set (best_artists toks L1)"
          using b(1) ub \<open>1 \<le> mx\<close> by (simp add: best_artists_def)
        then have "b = a" using at_most_one [OF be' _ abest] by blast
        then show False using b(2) by simp
      qed
    qed
    have lt2: "\<forall>b\<in>set L2. b \<noteq> a \<longrightarrow> artist_score toks b < artist_score toks a"
      using lt st by simp
    have a3: "a \<in> set L2" using a1 st by simp
    have "artist_loop q toks L1 0 None = Some a" using n1 a1 lt pos by (rule artist_loop_best)
    moreover have "artist_loop q toks L2 0 None = Some a" using n2 a3 lt2 pos by (rule artist_loop_best)
    ultimately show ?thesis by simp
  qed
qed

section \<open>The artist resolver on the example of the specification\<close>

lemma artist_a_candidates:
  "all_artists artist_a_titles = [''Artist A'', ''Artist B feat. Artist A'', ''artist a - song two'']"
  by code_simp

lemma artist_a_tokens: "query_tokens_of ''songs by artist a'' = [''artist'']"
  by code_simp

lemma artist_a_exact:
  "exact_artists (lower ''songs by artist a'')
     [''Artist A'', ''Artist B feat. Artist A'', ''artist a - song two''] = [''Artist A'']"
  by code_simp

text \<open>
  C7.  On the title pool "Artist A - Song One", "Artist B feat. Artist A - Song Two" and
  the question "songs by artist a" the resolver returns "Artist A" in every iteration
  order of the candidate set, because "Artist A" is the only derived candidate whose
  lower-cased name is a substring of the lower-cased question.
\<close>

theorem extract_artist_example:
  "iteration_order iter \<Longrightarrow>
   extract_artist_from_query iter ''songs by artist a'' artist_a_titles = Some ''Artist A'' \<and>
   exact_artists (lower ''songs by artist a'') (all_artists artist_a_titles) = [''Artist A'']"
proof -
  assume it: "iteration_order iter"
  let ?q = "lower ''songs by artist a''"
  let ?L = "iter (all_artists artist_a_titles)"
  have ex: "exact_artists ?q (all_artists artist_a_titles) = [''Artist A'']"
    by (simp only: artist_a_candidates artist_a_exact)
  have st: "set ?L = set (all_artists artist_a_titles)"
    using it by (simp add: iteration_order_def)
  have mem: "''Artist A'' \<in> set ?L"
    using st by (simp add: artist_a_candidates)
  have sub: "sublist (lower ''Artist A'') ?q" by code_simp
  have uniq: "\<forall>b\<in>set ?L. sublist (lower b) ?q \<longrightarrow> b = ''Artist A''"
  proof (intro ballI impI)
    fix b assume "b \<in> set ?L" and "sublist (lower b) ?q"
    then have "b \<in> set (exact_artists ?q (all_artists artist_a_titles))"
      unfolding st by (simp add: exact_artists_def)
    then show "b = ''Artist A''" unfolding ex by simp
  qed
  have loop: "artist_loop ?q [''artist''] ?L 0 None = Some ''Artist A''"
    using mem sub uniq by (rule artist_loop_exact)
  have toks: "filter (\<lambda>w. w \<notin> set stop_words \<and> 2 < length w) (py_split ?q) = [''artist'']"
    using artist_a_tokens by (simp only: query_tokens_of_def)
  have "extract_artist_from_query iter ''songs by artist a'' artist_a_titles = Some ''Artist A''"
    unfolding extract_artist_from_query_def Let_def toks using loop by simp
  then show ?thesis using ex by simp
qed

theorem extract_artist_example_witness:
  "iteration_order rev \<and>
   extract_artist_from_query rev ''songs by artist a'' artist_a_titles = Some ''Artist A'' \<and>
   exact_artists (lower ''songs by artist a'') (all_artists artist_a_titles) = [''Artist A'']"
proof -
  have h: "iteration_order rev" by (simp add: iteration_order_def)
  show ?thesis using h extract_artist_example [OF h] by simp
qed

section \<open>Determinism of the filter stage\<close>

lemma extract_artist_order:
  assumes "iteration_order iter1" and "iteration_order iter2"
    and "unambiguous query (all_artists titles)"
  shows "extract_artist_from_query iter1 query titles = extract_artist_from_query iter2 query titles"
proof (cases "query_tokens_of query = []")
  case True
  then show ?thesis
    by (simp add: extract_artist_from_query_def query_tokens_of_def Let_def)
next
  case False
  let ?A = "all_artists titles"
  have un1: "length (remdups (exact_artists (lower query) ?A)) \<le> 1"
    using assms(3) False by (simp add: unambiguous_def)
  have un2: "exact_artists (lower query) ?A = [] \<longrightarrow>
             length (remdups (best_artists (query_tokens_of query) ?A)) \<le> 1"
    using assms(3) False by (simp add: unambiguous_def)
  have st: "set (iter1 ?A) = set (iter2 ?A)" using assms(1,2) by (simp add: iteration_order_def)
  have s1: "set (iter1 ?A) = set ?A" using assms(1) by (simp add: iteration_order_def)
  have f1: "set (filter (\<lambda>a. sublist (lower a) (lower query)) (iter1 ?A))
          = set (filter (\<lambda>a. sublist (lower a) (lower query)) ?A)" using s1 by simp
  have b1: "set (best_artists (query_tokens_of query) (iter1 ?A))
          = set (best_artists (query_tokens_of query) ?A)"
    using s1 by (simp add: best_artists_def)
  have len: "\<And>xs ys :: string list. set xs = set ys \<Longrightarrow> length (remdups xs) = length (remdups ys)"
    by (metis distinct_card distinct_remdups set_remdups)
  have ex: "length (remdups (filter (\<lambda>a. sublist (lower a) (lower query)) (iter1 ?A))) \<le> 1"
    using un1 len [OF f1] by (simp add: exact_artists_def)
  have be: "filter (\<lambda>a. sublist (lower a) (lower query)) (iter1 ?A) = [] \<longrightarrow>
            length (remdups (best_artists (query_tokens_of query) (iter1 ?A))) \<le> 1"
  proof
    assume "filter (\<lambda>a. sublist (lower a) (lower query)) (iter1 ?A) = []"
    then have "set (filter (\<lambda>a. sublist (lower a) (lower query)) ?A) = {}" using f1 by simp
    then have "exact_artists (lower query) ?A = []" by (simp only: exact_artists_def set_empty)
    then have "length (remdups (best_artists (query_tokens_of query) ?A)) \<le> 1"
      using un2 by simp
    then show "length (remdups (best_artists (query_tokens_of query) (iter1 ?A))) \<le> 1"
      using len [OF b1] by simp
  qed
  have "artist_loop (lower query) (query_tokens_of query) (iter1 ?A) 0 None
      = artist_loop (lower query) (query_tokens_of query) (iter2 ?A) 0 None"
    using st ex be by (rule artist_loop_order)
  then show ?thesis
    by (simp add: extract_artist_from_query_def query_tokens_of_def Let_def)
qed

text \<open>
  C5 (as amended).  Running the filter stage (structured pass, artist resolution,
  exclusion pass, truncation to top_k) twice on the same question, structured filters,
  top_k and raw candidates gives the same ordered output, whatever the iteration order of
  the candidate-artist set in each run, on every question without music intent, and on
  every question with music intent outside two ties: the documented one, where several
  candidate artists are substrings of the lower-cased question, and the one where no
  candidate is such a substring and several candidates share the highest score, that
  score being at least 1.  A question whose tokens are all stop words or shorter than
  three characters is outside both ties.
\<close>

theorem retrieval_filter_order_independent:
  assumes "iteration_order iter1" and "iteration_order iter2"
    and "is_music_query message \<Longrightarrow>
         unambiguous message
           (all_artists (available_titles_of date_filter domain_filter docs_h metas_h))"
  shows "retrieval_filter iter1 message date_filter domain_filter top_k docs_h metas_h
       = retrieval_filter iter2 message date_filter domain_filter top_k docs_h metas_h"
proof (cases "structured_pass date_filter domain_filter docs_h metas_h")
  case (Inl e)
  then show ?thesis by (simp add: retrieval_filter_def)
next
  case (Inr r)
  obtain docs1 metas1 where r: "r = (docs1, metas1)" by (cases r)
  show ?thesis
  proof (cases "is_music_query message")
    case False
    then show ?thesis using Inr r by (simp add: retrieval_filter_def)
  next
    case True
    have "unambiguous message (all_artists (map (\<lambda>m. py_get (m_title m) '''') metas1))"
      using assms(3) [OF True] Inr r by (simp add: available_titles_of_def)
    then have "extract_artist_from_query iter1 message (map (\<lambda>m. py_get (m_title m) '''') metas1)
             = extract_artist_from_query iter2 message (map (\<lambda>m. py_get (m_title m) '''') metas1)"
      using assms(1,2) by (intro extract_artist_order)
    then show ?thesis using Inr r by (simp add: retrieval_filter_def)
  qed
qed

theorem retrieval_filter_order_independent_witness:
  "iteration_order (\<lambda>xs. xs) \<and> iteration_order rev \<and>
   is_music_query ''taylor momsen tracks'' \<and>
   unambiguous ''taylor momsen tracks''
     (all_artists (available_titles_of None None [''d1'', ''d2''] [momsen, dayne])) \<and>
   retrieval_filter (\<lambda>xs. xs) ''taylor momsen tracks'' None None 20 [''d1'', ''d2''] [momsen, dayne]
     = retrieval_filter rev ''taylor momsen tracks'' None None 20 [''d1'', ''d2''] [momsen, dayne]"
proof -
  have h1: "iteration_order (\<lambda>xs. xs)" by (simp add: iteration_order_def)
  have h2: "iteration_order rev" by (simp add: iteration_order_def)
  have h3: "is_music_query ''taylor momsen tracks''" by code_simp
  have h4: "unambiguous ''taylor momsen tracks''
     (all_artists (available_titles_of None None [''d1'', ''d2''] [momsen, dayne]))"
    by code_simp
  show ?thesis
    using h1 h2 h3 h4 retrieval_filter_order_independent [OF h1 h2 h4, of 20] by simp
qed

text \<open>
  The claim as stated fails: on the music question "taylor tracks" no candidate artist is
  a substring of the question, "Taylor Momsen" and "Taylor Dayne" both score 2, and the
  two iteration orders of the candidate set give different outputs.
\<close>

theorem retrieval_filter_score_tie_counterexample:
  "exact_artists (lower ''taylor tracks'')
     (all_artists (available_titles_of None None [''d1'', ''d2''] [momsen, dayne])) = [] \<and>
   retrieval_filter (\<lambda>xs. xs) ''taylor tracks'' None None 20 [''d1'', ''d2''] [momsen, dayne]
     = Inr ([''d1''], [momsen], Some ''Taylor Momsen'') \<and>
   retrieval_filter rev ''taylor tracks'' None None 20 [''d1'', ''d2''] [momsen, dayne]
     = Inr ([''d2''], [dayne], Some ''Taylor Dayne'')"
  by code_simp

section \<open>Facts about digits and searching\<close>

lemma digits_not_space: "\<forall>c \<in> set ''0123456789''. \<not> is_space c"
  by (simp add: is_space_def)

lemma digit_not_space: "is_digit c \<Longrightarrow> \<not> is_space c"
  using digits_not_space unfolding is_digit_def by blast

lemma digits_lower_char: "\<forall>c \<in> set ''0123456789''. lower_char c = c"
  by (simp add: lower_char_def upper_chars_def lower_chars_def)

lemma digit_lower: "is_digit c \<Longrightarrow> lower_char c = c"
  using digits_lower_char unfolding is_digit_def by blast

lemma digits_lower: "list_all is_digit s \<Longrightarrow> lower s = s"
  by (induction s) (simp_all add: lower_def digit_lower)

lemma digit_char_digit: "is_digit (digit_char n)"
  unfolding is_digit_def digit_char_def by (rule nth_mem) simp

lemma dec_digits: "list_all is_digit (dec n)"
proof (induction n rule: dec.induct)
  case (1 n)
  show ?case
  proof (cases "n < 10")
    case True
    then show ?thesis by (subst dec.simps) (simp add: digit_char_digit)
  next
    case False
    then show ?thesis using 1 by (subst dec.simps) (simp add: digit_char_digit)
  qed
qed

lemma dec_nonempty: "dec n \<noteq> []"
  by (subst dec.simps) simp

lemma dec_one_digit: "n < 10 \<Longrightarrow> dec n = [digit_char n]"
  by (subst dec.simps) simp

lemma dec_two_digits: "10 \<le> n \<Longrightarrow> n < 100 \<Longrightarrow> dec n = [digit_char (n div 10), digit_char n]"
  by (subst dec.simps) (simp add: dec_one_digit)

lemma pad2_shape: "n < 100 \<Longrightarrow> \<exists>a b. pad2 n = [a, b] \<and> is_digit a \<and> is_digit b"
proof (cases "n < 10")
  case True
  have "is_digit CHR ''0''" by (simp add: is_digit_def)
  then show ?thesis using True by (simp add: pad2_def dec_one_digit digit_char_digit)
next
  case False
  assume "n < 100"
  then show ?thesis using False by (simp add: pad2_def dec_two_digits digit_char_digit)
qed

lemma search_first_None:
  "(\<And>t. suffix t s \<Longrightarrow> f t = None) \<Longrightarrow> search_first f s = None"
proof (induction s)
  case Nil
  then show ?case by simp
next
  case (Cons c s)
  have "f (c # s) = None" using Cons.prems [of "c # s"] by simp
  moreover have "search_first f s = None"
    using Cons.IH Cons.prems by (simp add: suffix_Cons)
  ultimately show ?case by simp
qed

lemma prefix_suffix_sublist: "prefix n t \<Longrightarrow> suffix t s \<Longrightarrow> sublist n s"
  by (auto simp add: prefix_def suffix_def sublist_def)

text \<open>A matcher that needs \<open>name\<close> at the start finds nothing where \<open>name\<close> does not occur.\<close>

lemma search_absent:
  assumes "\<And>s. \<not> prefix name s \<Longrightarrow> f s = None" and "\<not> sublist name q"
  shows "search_first f q = None"
proof (rule search_first_None)
  fix t assume "suffix t q"
  then have "\<not> prefix name t" using assms(2) prefix_suffix_sublist by blast
  then show "f t = None" by (rule assms(1))
qed

lemma sublist_split_char:
  assumes "c \<notin> set n" and "n \<noteq> []"
  shows "sublist n (a @ c # b) \<longleftrightarrow> sublist n a \<or> sublist n b"
proof
  assume "sublist n (a @ c # b)"
  then consider "sublist n a" | "sublist n (c # b)"
    | x1 x2 where "n = x1 @ x2" "suffix x1 a" "prefix x2 (c # b)"
    by (auto simp add: sublist_append)
  then show "sublist n a \<or> sublist n b"
  proof cases
    case 1
    then show ?thesis by simp
  next
    case 2
    then have "prefix n (c # b) \<or> sublist n b" by (simp add: sublist_Cons_right)
    moreover have "\<not> prefix n (c # b)"
      using assms by (cases n) (auto simp add: prefix_def)
    ultimately show ?thesis by simp
  next
    case 3
    show ?thesis
    proof (cases x2)
      case Nil
      then show ?thesis using 3 by auto
    next
      case (Cons y ys)
      then have "y = c" using 3(3) by simp
      then show ?thesis using 3(1) Cons assms(1) by simp
    qed
  qed
next
  assume "sublist n a \<or> sublist n b"
  then show "sublist n (a @ c # b)"
    by (auto simp add: sublist_append sublist_Cons_right)
qed

lemma search_skip_word:
  assumes pf: "\<And>s. \<not> prefix name s \<Longrightarrow> f s = None"
    and sp: "c \<notin> set name" and ne: "name \<noteq> []"
  shows "\<not> sublist name W \<Longrightarrow> search_first f (W @ c # R) = search_first f R"
proof (induction W)
  case Nil
  have "\<not> prefix name (c # R)" using sp ne by (cases name) (auto simp add: prefix_def)
  then show ?case by (simp add: pf)
next
  case (Cons x W)
  have np: "\<not> prefix name ((x # W) @ c # R)"
  proof
    assume p: "prefix name ((x # W) @ c # R)"
    then have "prefix name (x # W) \<or> (\<exists>us. name = (x # W) @ us \<and> prefix us (c # R))"
      by (simp only: prefix_append)
    then consider "prefix name (x # W)" | us where "name = (x # W) @ us" "prefix us (c # R)"
      by blast
    then show False
    proof cases
      case 1
      then show False using Cons.prems by auto
    next
      case 2
      show False
      proof (cases us)
        case Nil
        then show False using 2(1) Cons.prems by simp
      next
        case (Cons y ys)
        then have "y = c" using 2(2) by simp
        then show False using 2(1) Cons sp by simp
      qed
    qed
  qed
  have "\<not> sublist name W" using Cons.prems by (simp add: sublist_Cons_right)
  then have "search_first f (W @ c # R) = search_first f R" by (rule Cons.IH)
  then show ?case using pf [OF np] by simp
qed

lemma search_in_text:
  assumes pf: "\<And>s. \<not> prefix name s \<Longrightarrow> f s = None"
    and sp: "c \<notin> set name" and ne: "name \<noteq> []"
    and m: "\<not> sublist name M'" and t: "\<not> sublist name T"
  shows "search_first f ((x # M') @ c # T) = f ((x # M') @ c # T)"
proof -
  have "search_first f (M' @ c # T) = search_first f T"
    using pf sp ne m by (rule search_skip_word)
  also have "\<dots> = None" using pf t by (rule search_absent)
  finally show ?thesis by (cases "f ((x # M') @ c # T)") simp_all
qed

lemma m_year_at_prefixed: "\<not> prefix name s \<Longrightarrow> m_year_at name s = None"
  by (simp add: m_year_at_def)

lemma m1_at_prefixed: "\<not> prefix name s \<Longrightarrow> m1_at name s = None"
  by (simp add: m1_at_def)

lemma letters_not_in_digits:
  assumes "list_all (\<lambda>c. is_digit c \<or> is_space c) T" and "n \<noteq> []"
    and "\<not> is_digit (hd n)" and "\<not> is_space (hd n)"
  shows "\<not> sublist n T"
proof
  assume "sublist n T"
  then have "set n \<subseteq> set T" by (rule set_mono_sublist)
  then have "hd n \<in> set T" using assms(2) by (cases n) auto
  then show False using assms(1,3,4) by (auto simp add: list_all_iff)
qed

section \<open>Tables of names\<close>

lemma month_name_facts:
  "\<forall>(n, k) \<in> set months.
     n \<noteq> [] \<and> CHR '' '' \<notin> set n \<and> \<not> is_digit (hd n) \<and> \<not> is_space (hd n)"
  by code_simp

lemma month_in_month:
  "\<forall>M \<in> set (map lower month_names). \<forall>(n, k) \<in> set months.
     sublist n M \<longrightarrow> prefix n M \<and> \<not> sublist n (tl M)"
  by code_simp

lemma month_in_month_long:
  "\<forall>M \<in> set (map lower month_names). \<forall>(n, k) \<in> set months.
     sublist n M \<and> 3 < length n \<longrightarrow> n = M"
  by code_simp

lemma month_in_month_next:
  "\<forall>M \<in> set (map lower month_names). \<forall>(n, k) \<in> set months.
     sublist n M \<and> n \<noteq> M \<longrightarrow> \<not> is_space (M ! length n)"
  by code_simp

lemma month_is_key:
  "\<forall>M \<in> set (map lower month_names). M \<noteq> [] \<and> M \<in> set (map fst months)"
  by code_simp

lemma month_no_keyword:
  "\<forall>M \<in> set (map lower month_names).
     \<not> sublist ''yesterday'' M \<and> \<not> sublist ''today'' M \<and> \<not> sublist ''last'' M \<and>
     \<not> sublist ''this'' M"
  by code_simp

lemma weekday_no_month:
  "\<forall>W \<in> set (map lower weekday_names). \<forall>(n, k) \<in> set months. \<not> sublist n W"
  by code_simp

lemma weekday_no_keyword:
  "\<forall>W \<in> set (map lower weekday_names).
     \<not> sublist ''yesterday'' W \<and> \<not> sublist ''today'' W \<and> \<not> sublist ''last'' W \<and>
     \<not> sublist ''this'' W"
  by code_simp

section \<open>Searching the rendered text of a date\<close>

lemma m_year_at_here:
  "m_year_at n (n @ r) =
     (let r' = dropWhile is_space r
      in if r' \<noteq> r \<and> length (take 4 r') = 4 \<and> list_all is_digit (take 4 r')
         then Some (take 4 r') else None)"
  by (simp add: m_year_at_def)

lemma m1_at_here:
  "m1_at n (n @ r) =
     (let ds = take 2 (takeWhile is_digit (dropWhile is_space r))
      in if ds \<noteq> [] then Some ds else None)"
  by (simp add: m1_at_def)

lemma space_is_space: "is_space CHR '' ''"
  by (simp add: is_space_def)

lemma space_not_digit: "\<not> is_digit CHR '' ''"
  by (simp add: is_digit_def)

text \<open>
  The text \<open>W M dd Y\<close> of a day: no month name is followed by white space and four
  digits.
\<close>

lemma day_text_m_year:
  assumes M: "M \<in> set (map lower month_names)" and n: "(n, k) \<in> set months"
    and nW: "\<not> sublist n W"
    and d: "is_digit d1" "is_digit d2" and Y: "list_all is_digit Y"
  shows "search_first (m_year_at n) (W @ CHR '' '' # M @ CHR '' '' # d1 # d2 # CHR '' '' # Y) = None"
proof -
  let ?T = "d1 # d2 # CHR '' '' # Y"
  have nf: "n \<noteq> []" "CHR '' '' \<notin> set n" "\<not> is_digit (hd n)" "\<not> is_space (hd n)"
    using month_name_facts n by auto
  have T: "list_all (\<lambda>c. is_digit c \<or> is_space c) ?T"
    using d Y space_is_space by (simp add: list_all_iff)
  have nT: "\<not> sublist n ?T" using T nf(1,3,4) by (rule letters_not_in_digits)
  have skip: "search_first (m_year_at n) (W @ CHR '' '' # M @ CHR '' '' # ?T)
            = search_first (m_year_at n) (M @ CHR '' '' # ?T)"
    using m_year_at_prefixed nf(2,1) nW by (rule search_skip_word)
  have "search_first (m_year_at n) (M @ CHR '' '' # ?T) = None"
  proof (cases "sublist n M")
    case False
    then have "\<not> sublist n (M @ CHR '' '' # ?T)"
      using nT sublist_split_char [OF nf(2,1)] by simp
    with m_year_at_prefixed show ?thesis by (rule search_absent)
  next
    case True
    then have pm: "prefix n M" and ntl: "\<not> sublist n (tl M)" using month_in_month M n by auto
    have Mne: "M \<noteq> []" using month_is_key M by auto
    then obtain x M' where Mx: "M = x # M'" by (cases M) simp_all
    have ntl': "\<not> sublist n M'" using ntl Mx by simp
    have "search_first (m_year_at n) ((x # M') @ CHR '' '' # ?T)
        = m_year_at n ((x # M') @ CHR '' '' # ?T)"
      using m_year_at_prefixed nf(2,1) ntl' nT by (rule search_in_text)
    then have here:
      "search_first (m_year_at n) (M @ CHR '' '' # ?T) = m_year_at n (M @ CHR '' '' # ?T)"
      by (simp only: Mx [symmetric])
    obtain M2 where M2: "M = n @ M2" using pm by (auto simp add: prefix_def)
    have "m_year_at n (n @ (M2 @ CHR '' '' # ?T)) = None"
    proof (cases "M2 = []")
      case True
      then show ?thesis
        using d digit_not_space space_is_space space_not_digit
        by (simp add: m_year_at_here)
    next
      case False
      have "n \<noteq> M" using False M2 by simp
      then have "\<not> is_space (M ! length n)" using month_in_month_next M n True by auto
      moreover have "M ! length n = hd M2" using M2 False by (simp add: nth_append hd_conv_nth)
      ultimately have "\<not> is_space (hd M2)" by simp
      then have "dropWhile is_space (M2 @ CHR '' '' # ?T) = M2 @ CHR '' '' # ?T"
        using False by (cases M2) simp_all
      then show ?thesis by (simp only: m_year_at_here Let_def) simp
    qed
    then show ?thesis using here M2 by simp
  qed
  then show ?thesis using skip by simp
qed

text \<open>In that text the month name is followed by the two digits of the day.\<close>

lemma day_text_m1:
  assumes M: "M \<in> set (map lower month_names)" and nW: "\<not> sublist M W"
    and d: "is_digit d1" "is_digit d2" and Y: "list_all is_digit Y"
  shows "search_first (m1_at M) (W @ CHR '' '' # M @ CHR '' '' # d1 # d2 # CHR '' '' # Y)
       = Some [d1, d2]"
proof -
  let ?T = "d1 # d2 # CHR '' '' # Y"
  obtain k where n: "(M, k) \<in> set months" using month_is_key M by auto
  have nf: "M \<noteq> []" "CHR '' '' \<notin> set M" "\<not> is_digit (hd M)" "\<not> is_space (hd M)"
    using month_name_facts n by auto
  have T: "list_all (\<lambda>c. is_digit c \<or> is_space c) ?T"
    using d Y space_is_space by (simp add: list_all_iff)
  have nT: "\<not> sublist M ?T" using T nf(1,3,4) by (rule letters_not_in_digits)
  have skip: "search_first (m1_at M) (W @ CHR '' '' # M @ CHR '' '' # ?T)
            = search_first (m1_at M) (M @ CHR '' '' # ?T)"
    using m1_at_prefixed nf(2,1) nW by (rule search_skip_word)
  obtain x M' where Mx: "M = x # M'" using nf(1) by (cases M) simp_all
  have "sublist M M" by simp
  then have "\<not> sublist M (tl M)" using month_in_month M n by auto
  then have ntl': "\<not> sublist M M'" using Mx by simp
  have "search_first (m1_at M) ((x # M') @ CHR '' '' # ?T) = m1_at M ((x # M') @ CHR '' '' # ?T)"
    using m1_at_prefixed nf(2,1) ntl' nT by (rule search_in_text)
  then have here: "search_first (m1_at M) (M @ CHR '' '' # ?T) = m1_at M (M @ CHR '' '' # ?T)"
    by (simp only: Mx [symmetric])
  have "m1_at M (M @ CHR '' '' # ?T) = Some [d1, d2]"
    using d digit_not_space space_is_space space_not_digit by (simp add: m1_at_here)
  then show ?thesis using skip here by simp
qed

text \<open>The text \<open>M Y\<close> of a month: the month name is followed by digits.\<close>

lemma month_text_m1:
  assumes M: "M \<in> set (map lower month_names)" and Y: "list_all is_digit Y" "Y \<noteq> []"
  shows "search_first (m1_at M) (M @ CHR '' '' # Y) \<noteq> None"
proof -
  obtain k where n: "(M, k) \<in> set months" using month_is_key M by auto
  have nf: "M \<noteq> []" "CHR '' '' \<notin> set M" "\<not> is_digit (hd M)" "\<not> is_space (hd M)"
    using month_name_facts n by auto
  have T: "list_all (\<lambda>c. is_digit c \<or> is_space c) Y" using Y(1) by (simp add: list_all_iff)
  have nT: "\<not> sublist M Y" using T nf(1,3,4) by (rule letters_not_in_digits)
  obtain x M' where Mx: "M = x # M'" using nf(1) by (cases M) simp_all
  have "sublist M M" by simp
  then have "\<not> sublist M (tl M)" using month_in_month M n by auto
  then have ntl': "\<not> sublist M M'" using Mx by simp
  have "search_first (m1_at M) ((x # M') @ CHR '' '' # Y) = m1_at M ((x # M') @ CHR '' '' # Y)"
    using m1_at_prefixed nf(2,1) ntl' nT by (rule search_in_text)
  then have here: "search_first (m1_at M) (M @ CHR '' '' # Y) = m1_at M (M @ CHR '' '' # Y)"
    by (simp only: Mx [symmetric])
  obtain y Y' where Yy: "Y = y # Y'" using Y(2) by (cases Y) simp_all
  then have y: "is_digit y" using Y(1) by simp
  have "m1_at M (M @ CHR '' '' # y # Y') \<noteq> None"
    using y digit_not_space space_is_space by (simp add: m1_at_here)
  then show ?thesis using here Yy by simp
qed

section \<open>Granularity of what the month loop and \<open>strptime\<close> give\<close>

lemma two_hyphens:
  "2 \<le> length (filter (\<lambda>c. c = CHR ''-'') (a @ ''-'' @ b @ ''-'' @ e))"
  by simp

lemma day_string_granularity: "date_granularity (Some (day_string z)) = 2"
proof -
  obtain y m d where "civil_from_days z = (y, m, d)" by (cases "civil_from_days z")
  then show ?thesis
    using two_hyphens [of "strftime_Y (nat y)" "pad2 (nat m)" "pad2 (nat d)"]
    by (simp add: date_granularity_def day_string_def strftime_ymd_def)
qed

lemma month_loop_day:
  "\<forall>(n, k) \<in> set ms. search_first (m_year_at n) q = None \<and>
       (sublist n q \<and> 3 < length n \<longrightarrow> search_first (m1_at n) q \<noteq> None)
   \<Longrightarrow> month_loop cy q ms = None \<or> date_granularity (month_loop cy q ms) = 2"
proof (induction ms)
  case Nil
  then show ?case by simp
next
  case (Cons p ms)
  obtain n k where p: "p = (n, k)" by (cases p)
  have y: "search_first (m_year_at n) q = None" using Cons.prems p by simp
  have ih: "month_loop cy q ms = None \<or> date_granularity (month_loop cy q ms) = 2"
    using Cons.IH Cons.prems by simp
  have day: "\<And>g. date_granularity
                 (Some (dec cy @ ''-'' @ pad2 k @ ''-'' @ pad2 (nat_of_digits g))) = 2"
    using two_hyphens by (simp add: date_granularity_def)
  show ?case
  proof (cases "search_first (m1_at n) q")
    case (Some g)
    then show ?thesis using p y day by simp
  next
    case None
    then have bare: "\<not> (sublist n q \<and> 3 < length n)" using Cons.prems p by simp
    show ?thesis
    proof (cases "search_first (m2_at n) q")
      case (Some g)
      then show ?thesis using p y None day by simp
    next
      case None2: None
      show ?thesis using p y None None2 bare ih by auto
    qed
  qed
qed

lemma month_loop_found:
  "(M, k) \<in> set ms \<Longrightarrow> search_first (m1_at M) q \<noteq> None \<Longrightarrow> month_loop cy q ms \<noteq> None"
proof (induction ms)
  case Nil
  then show ?case by simp
next
  case (Cons p ms)
  obtain n j where p: "p = (n, j)" by (cases p)
  show ?case
  proof (cases "p = (M, k)")
    case True
    then have "n = M" using p by simp
    then show ?thesis using p Cons.prems(2) by (auto split: option.splits)
  next
    case False
    then have "month_loop cy q ms \<noteq> None" using Cons by simp
    then show ?thesis using p by (auto split: option.splits)
  qed
qed

lemma extract_date_of_month_loop:
  assumes "month_loop (current_year c) (lower text) months \<noteq> None"
  shows "extract_date c text \<noteq> None"
    and "date_granularity (month_loop (current_year c) (lower text) months) = 2
         \<Longrightarrow> date_granularity (extract_date c text) = 2"
proof -
  obtain s where s: "month_loop (current_year c) (lower text) months = Some s"
    using assms by auto
  show "extract_date c text \<noteq> None" using s by (simp add: extract_date_def Let_def)
  assume "date_granularity (month_loop (current_year c) (lower text) months) = 2"
  then show "date_granularity (extract_date c text) = 2"
    using s day_string_granularity by (simp add: extract_date_def Let_def)
qed

lemma digits_no_hyphen: "list_all is_digit s \<Longrightarrow> filter (\<lambda>c. c = CHR ''-'') s = []"
proof -
  have "\<not> is_digit CHR ''-''" by (simp add: is_digit_def)
  then show "list_all is_digit s \<Longrightarrow> filter (\<lambda>c. c = CHR ''-'') s = []"
    by (induction s) auto
qed

lemma day_token_chars: "day_token t \<Longrightarrow> set t \<subseteq> set ''0123456789 ''"
  by (auto simp add: day_token_def is_digit_def split: list.splits)

lemma day_token_no_hyphen: "day_token t \<Longrightarrow> filter (\<lambda>c. c = CHR ''-'') t = []"
proof -
  assume "day_token t"
  then have "set t \<subseteq> set ''0123456789 ''" by (rule day_token_chars)
  moreover have "CHR ''-'' \<notin> set ''0123456789 ''" by simp
  ultimately have "CHR ''-'' \<notin> set t" by blast
  then show ?thesis by (auto simp add: filter_empty_conv)
qed

lemma filter_takeWhile_not: "filter P (takeWhile (\<lambda>c. \<not> P c) xs) = []"
  by (induction xs) simp_all

lemma strptime_hyphens:
  assumes "strptime_ymd s = Some v"
  shows "length (filter (\<lambda>c. c = CHR ''-'') s) = 2"
proof -
  define r where "r = drop 4 s"
  define t where "t = drop 1 r"
  define ms where "ms = takeWhile (\<lambda>c. c \<noteq> CHR ''-'') t"
  define r' where "r' = dropWhile (\<lambda>c. c \<noteq> CHR ''-'') t"
  define ds where "ds = drop 1 r'"
  have c: "list_all is_digit (take 4 s)" "r \<noteq> []" "hd r = CHR ''-''" "r' \<noteq> []" "day_token ds"
    using assms unfolding r_def t_def ms_def r'_def ds_def
    by (simp_all add: strptime_ymd_def Let_def split: if_splits)
  have r: "r = CHR ''-'' # t" using c(2,3) unfolding t_def by (cases r) simp_all
  have "\<not> hd r' \<noteq> CHR ''-''"
    using c(4) unfolding r'_def by (rule hd_dropWhile)
  then have r': "r' = CHR ''-'' # ds" using c(4) unfolding ds_def by (cases r') simp_all
  have t: "t = ms @ r'" unfolding ms_def r'_def by simp
  have s: "s = take 4 s @ r" unfolding r_def by simp
  have h1: "filter (\<lambda>c. c = CHR ''-'') (take 4 s) = []" using c(1) by (rule digits_no_hyphen)
  have h2: "filter (\<lambda>c. c = CHR ''-'') ms = []" unfolding ms_def by (rule filter_takeWhile_not)
  have h3: "filter (\<lambda>c. c = CHR ''-'') ds = []" using c(5) by (rule day_token_no_hyphen)
  have "filter (\<lambda>c. c = CHR ''-'') r = [CHR ''-'', CHR ''-'']"
    by (simp add: r t r' h2 h3)
  moreover have "filter (\<lambda>c. c = CHR ''-'') s
      = filter (\<lambda>c. c = CHR ''-'') (take 4 s) @ filter (\<lambda>c. c = CHR ''-'') r"
    using s by (metis filter_append)
  ultimately show ?thesis using h1 by simp
qed

lemma digit_val_small:
  "\<forall>c \<in> set ''123456789''. 1 \<le> digit_val c \<and> digit_val c \<le> 9"
  "\<forall>c \<in> set ''012''. digit_val c \<le> 2"
  "digit_val CHR ''0'' = 0" "digit_val CHR ''1'' = 1"
  by (simp_all add: digit_val_def)

lemma month_token_range: "month_token t \<Longrightarrow> 1 \<le> nat_of_digits t \<and> nat_of_digits t \<le> 12"
proof -
  assume t: "month_token t"
  then consider a where "t = [a]" "a \<in> set ''123456789''"
    | b where "t = [CHR ''1'', b]" "b \<in> set ''012''"
    | b where "t = [CHR ''0'', b]" "b \<in> set ''123456789''"
    unfolding month_token_def by (auto split: list.splits)
  then show ?thesis
  proof cases
    case 1
    then show ?thesis using digit_val_small(1) by (auto simp add: nat_of_digits_def)
  next
    case 2
    then show ?thesis using digit_val_small(2,4) by (auto simp add: nat_of_digits_def)
  next
    case 3
    then show ?thesis using digit_val_small(1,3) by (auto simp add: nat_of_digits_def)
  qed
qed

lemma days_in_month_le: "days_in_month y m \<le> 31"
  by (simp add: days_in_month_def)

lemma strptime_range:
  assumes "strptime_ymd s = Some (y, m, d)"
  shows "1 \<le> m \<and> m \<le> 12 \<and> d \<le> 31"
proof -
  have "month_token (takeWhile (\<lambda>c. c \<noteq> CHR ''-'') (drop 1 (drop 4 s)))"
    and "m = nat_of_digits (takeWhile (\<lambda>c. c \<noteq> CHR ''-'') (drop 1 (drop 4 s)))"
    and "d \<le> days_in_month y m"
    using assms by (simp_all add: strptime_ymd_def Let_def split: if_splits)
  then show ?thesis using month_token_range days_in_month_le [of y m] by auto
qed

section \<open>The round trip of an extracted date through its rendering\<close>

lemma lower_Cons: "lower (c # s) = lower_char c # lower s"
  by (simp add: lower_def)

lemma lower_char_space: "lower_char CHR '' '' = CHR '' ''"
  by (simp add: lower_char_def upper_chars_def lower_chars_def)

lemma granularity_some: "1 \<le> date_granularity (Some s)" "date_granularity r \<le> 2"
  by (simp_all add: date_granularity_def split: option.splits)

lemma day_text_granularity:
  assumes Wn: "Wn \<in> set weekday_names" and Mn: "Mn \<in> set month_names" and d: "d < 100"
  shows "date_granularity
           (extract_date c (Wn @ '' '' @ Mn @ '' '' @ pad2 d @ '' '' @ strftime_Y y)) = 2"
proof -
  obtain d1 d2 where p: "pad2 d = [d1, d2]" and dd: "is_digit d1" "is_digit d2"
    using pad2_shape [OF d] by blast
  define Y where "Y = strftime_Y y"
  have Y: "list_all is_digit Y" unfolding Y_def strftime_Y_def by (rule dec_digits)
  define W where "W = lower Wn"
  define M where "M = lower Mn"
  define T where "T = d1 # d2 # CHR '' '' # Y"
  define q where "q = W @ CHR '' '' # M @ CHR '' '' # T"
  have W: "W \<in> set (map lower weekday_names)" using Wn unfolding W_def by simp
  have M: "M \<in> set (map lower month_names)" using Mn unfolding M_def by simp
  have low: "lower (Wn @ '' '' @ Mn @ '' '' @ pad2 d @ '' '' @ strftime_Y y) = q"
    unfolding q_def T_def W_def M_def Y_def [symmetric] p
    using dd Y by (simp add: lower_append lower_Cons lower_char_space digit_lower digits_lower)
  have T: "list_all (\<lambda>c. is_digit c \<or> is_space c) T"
    unfolding T_def using dd Y space_is_space by (simp add: list_all_iff)
  have a: "\<forall>(n, k) \<in> set months. search_first (m_year_at n) q = None \<and>
       (sublist n q \<and> 3 < length n \<longrightarrow> search_first (m1_at n) q \<noteq> None)"
  proof (intro ballI, clarify, intro conjI impI)
    fix n k assume n: "(n, k) \<in> set months"
    have nf: "n \<noteq> []" "CHR '' '' \<notin> set n" "\<not> is_digit (hd n)" "\<not> is_space (hd n)"
      using month_name_facts n by auto
    have nW: "\<not> sublist n W" using weekday_no_month W n by auto
    show "search_first (m_year_at n) q = None"
      unfolding q_def T_def using M n nW dd Y by (rule day_text_m_year)
    assume s: "sublist n q \<and> 3 < length n"
    have nT: "\<not> sublist n T" using T nf(1,3,4) by (rule letters_not_in_digits)
    have "sublist n W \<or> sublist n (M @ CHR '' '' # T)"
      using s sublist_split_char [OF nf(2,1), of W "M @ CHR '' '' # T"] unfolding q_def by simp
    then have "sublist n (M @ CHR '' '' # T)" using nW by simp
    then have "sublist n M" using nT sublist_split_char [OF nf(2,1), of M T] by simp
    then have "n = M" using s month_in_month_long M n by auto
    then show "search_first (m1_at n) q \<noteq> None"
      unfolding q_def T_def using day_text_m1 [OF M _ dd Y, of W] nW by simp
  qed
  obtain k where k: "(M, k) \<in> set months" using month_is_key M by auto
  have nW: "\<not> sublist M W" using weekday_no_month W k by auto
  have "search_first (m1_at M) q \<noteq> None"
    unfolding q_def T_def using day_text_m1 [OF M nW dd Y] by simp
  with k have found: "month_loop (current_year c) q months \<noteq> None" by (rule month_loop_found)
  then have "date_granularity (month_loop (current_year c) q months) = 2"
    using month_loop_day [OF a, of "current_year c"] by auto
  then show ?thesis using extract_date_of_month_loop(2) [of c] found low by simp
qed

lemma month_text_found:
  assumes Mn: "Mn \<in> set month_names"
  shows "extract_date c (Mn @ '' '' @ strftime_Y y) \<noteq> None"
proof -
  define Y where "Y = strftime_Y y"
  have Y: "list_all is_digit Y" "Y \<noteq> []"
    unfolding Y_def strftime_Y_def by (rule dec_digits, rule dec_nonempty)
  define M where "M = lower Mn"
  have M: "M \<in> set (map lower month_names)" using Mn unfolding M_def by simp
  have low: "lower (Mn @ '' '' @ strftime_Y y) = M @ CHR '' '' # Y"
    unfolding M_def Y_def [symmetric] using Y by (simp add: lower_append lower_Cons lower_char_space digit_lower digits_lower)
  obtain k where k: "(M, k) \<in> set months" using month_is_key M by auto
  have "search_first (m1_at M) (M @ CHR '' '' # Y) \<noteq> None" using M Y by (rule month_text_m1)
  with k have "month_loop (current_year c) (M @ CHR '' '' # Y) months \<noteq> None"
    by (rule month_loop_found)
  then show ?thesis using extract_date_of_month_loop(1) [of c] low by simp
qed

lemma month_names_nth: "1 \<le> m \<Longrightarrow> m \<le> 12 \<Longrightarrow> month_names ! (m - 1) \<in> set month_names"
  by (rule nth_mem) (simp add: month_names_def)

lemma weekday_names_nth: "weekday_names ! weekday y m d \<in> set weekday_names"
  by (rule nth_mem) (simp add: weekday_names_def weekday_def)

text \<open>
  C8.  When \<open>extract_date\<close> extracts a date from a question and \<open>chat_structured\<close> renders
  it (month name and year for a value of length 7, weekday, month name, day and year
  otherwise), \<open>extract_date\<close> on the rendered text gives a result of no lower granularity:
  a day stays a day, a month stays a month or becomes a day, and nothing becomes none.
\<close>

theorem extract_date_round_trip:
  assumes "extract_date c question = Some d" and "render_date d = Some text"
  shows "date_granularity (Some d) \<le> date_granularity (extract_date c text)"
proof (cases "length d = 7")
  case True
  then obtain y m dd where sp: "strptime_ymd (d @ ''-01'') = Some (y, m, dd)"
    and tx: "text = month_names ! (m - 1) @ '' '' @ strftime_Y y"
    using assms(2) by (auto simp add: render_date_def split: option.splits)
  have "1 \<le> m \<and> m \<le> 12" using strptime_range [OF sp] by simp
  then have "month_names ! (m - 1) \<in> set month_names" using month_names_nth by simp
  then have "extract_date c text \<noteq> None" unfolding tx by (rule month_text_found)
  then obtain r where r: "extract_date c text = Some r" by auto
  have "length (filter (\<lambda>c. c = CHR ''-'') (d @ ''-01'')) = 2" using sp by (rule strptime_hyphens)
  then have "date_granularity (Some d) = 1" by (simp add: date_granularity_def)
  then show ?thesis using r granularity_some(1) [of r] by simp
next
  case False
  then obtain y m dd where sp: "strptime_ymd d = Some (y, m, dd)"
    and tx: "text = weekday_names ! weekday y m dd @ '' '' @ month_names ! (m - 1) @ '' ''
                      @ pad2 dd @ '' '' @ strftime_Y y"
    using assms(2) by (auto simp add: render_date_def split: option.splits)
  have rg: "1 \<le> m \<and> m \<le> 12 \<and> dd \<le> 31" using strptime_range [OF sp] by simp
  then have Mn: "month_names ! (m - 1) \<in> set month_names" using month_names_nth by simp
  have dd: "dd < 100" using rg by simp
  have "date_granularity (extract_date c text) = 2"
    unfolding tx using weekday_names_nth Mn dd by (rule day_text_granularity)
  then show ?thesis using granularity_some(2) [of "Some d"] by simp
qed

theorem extract_date_round_trip_witness:
  "extract_date \<lparr>now_day = 19787\<rparr> ''what did I watch on march 5'' = Some ''2024-03-05'' \<and>
   render_date ''2024-03-05'' = Some ''Tuesday March 05 2024'' \<and>
   date_granularity (Some ''2024-03-05'')
     \<le> date_granularity (extract_date \<lparr>now_day = 19787\<rparr> ''Tuesday March 05 2024'')"
proof -
  have h1: "extract_date \<lparr>now_day = 19787\<rparr> ''what did I watch on march 5'' = Some ''2024-03-05''"
    by code_simp
  have h2: "render_date ''2024-03-05'' = Some ''Tuesday March 05 2024''"
    by code_simp
  show ?thesis using h1 h2 extract_date_round_trip [OF h1 h2] by simp
qed

section \<open>Stable document identifiers\<close>

lemma digit_val_digit_char: "digit_val (digit_char n) = n mod 10"
proof -
  have "\<forall>k \<in> set [0..<10]. digit_val (''0123456789'' ! k) = k" by code_simp
  moreover have "n mod 10 \<in> set [0..<10]" by simp
  ultimately show ?thesis unfolding digit_char_def by blast
qed

lemma nat_of_digits_snoc: "nat_of_digits (s @ [c]) = 10 * nat_of_digits s + digit_val c"
  by (simp add: nat_of_digits_def)

lemma nat_of_digits_dec: "nat_of_digits (dec n) = n"
proof (induction n rule: dec.induct)
  case (1 n)
  show ?case
  proof (cases "n < 10")
    case True
    then show ?thesis
      by (subst dec.simps) (simp add: nat_of_digits_def digit_val_digit_char)
  next
    case False
    then have "nat_of_digits (dec (n div 10)) = n div 10" using 1 by simp
    then show ?thesis using False
      by (subst dec.simps) (simp add: nat_of_digits_snoc digit_val_digit_char)
  qed
qed

lemma dec_inject: "dec m = dec n \<Longrightarrow> m = n"
  by (metis nat_of_digits_dec)

text \<open>
  C2.  The identifier is not the same across process runs.  It ends in the decimal
  numeral of \<open>abs(hash(item.url)) % (10**9)\<close>, and \<open>hash\<close> on strings is salted per
  process: two runs that agree on the local day of the visit and whose hashes of the URL
  differ modulo 10^9 give the same item different identifiers.
\<close>

theorem stable_doc_id_across_runs:
  assumes "local_day_of_ms p1 = local_day_of_ms p2"
    and "stable_doc_id p1 item = Inr s"
    and "url_number p1 item \<noteq> url_number p2 item"
  shows "\<exists>s'. stable_doc_id p2 item = Inr s' \<and> s' \<noteq> s"
proof (cases "local_day_of_ms p1 (item_lastVisitTime item)")
  case (Inl e)
  then show ?thesis using assms(2) by (simp add: stable_doc_id_def)
next
  case (Inr vdate)
  have d2: "local_day_of_ms p2 (item_lastVisitTime item) = Inr vdate"
    using Inr assms(1) by simp
  have s: "s = ''hist:'' @ item_domain item @ '':'' @ vdate @ '':'' @ dec (url_number p1 item)"
    using assms(2) Inr by (simp add: stable_doc_id_def)
  have s2: "stable_doc_id p2 item
          = Inr (''hist:'' @ item_domain item @ '':'' @ vdate @ '':'' @ dec (url_number p2 item))"
    using d2 by (simp add: stable_doc_id_def)
  have "dec (url_number p2 item) \<noteq> dec (url_number p1 item)"
    using assms(3) dec_inject [of "url_number p2 item" "url_number p1 item"] by auto
  then show ?thesis unfolding s2 s by simp
qed

theorem stable_doc_id_across_runs_witness:
  "local_day_of_ms run_seed_1 = local_day_of_ms run_seed_2 \<and>
   stable_doc_id run_seed_1 (video_visit ''https://www.youtube.com/watch?v=abc'')
     = Inr ''hist:youtube.com:2024-03-05:282174230'' \<and>
   stable_doc_id run_seed_2 (video_visit ''https://www.youtube.com/watch?v=abc'')
     = Inr ''hist:youtube.com:2024-03-05:764271405'' \<and>
   url_number run_seed_1 (video_visit ''https://www.youtube.com/watch?v=abc'')
     \<noteq> url_number run_seed_2 (video_visit ''https://www.youtube.com/watch?v=abc'') \<and>
   (\<exists>s'. stable_doc_id run_seed_2 (video_visit ''https://www.youtube.com/watch?v=abc'') = Inr s' \<and>
      s' \<noteq> ''hist:youtube.com:2024-03-05:282174230'')"
proof -
  let ?v = "video_visit ''https://www.youtube.com/watch?v=abc''"
  have h1: "local_day_of_ms run_seed_1 = local_day_of_ms run_seed_2"
    by (simp add: run_seed_1_def run_seed_2_def utc_run_def)
  have d1: "local_day_of_ms run_seed_1 (item_lastVisitTime ?v) = Inr ''2024-03-05''"
    by (simp add: run_seed_1_def utc_run_def utc_day_of_visit_def video_visit_def)
  have d2: "local_day_of_ms run_seed_2 (item_lastVisitTime ?v) = Inr ''2024-03-05''"
    by (simp add: run_seed_2_def utc_run_def utc_day_of_visit_def video_visit_def)
  have n1: "url_number run_seed_1 ?v = 282174230"
    by (simp add: url_number_def run_seed_1_def utc_run_def video_visit_def)
  have n2: "url_number run_seed_2 ?v = 764271405"
    by (simp add: url_number_def run_seed_2_def utc_run_def video_visit_def)
  have t1: "dec 282174230 = ''282174230''" by (simp add: dec.simps digit_char_def)
  have t2: "dec 764271405 = ''764271405''" by (simp add: dec.simps digit_char_def)
  have dm: "item_domain ?v = ''youtube.com''" by (simp add: video_visit_def)
  have h2: "stable_doc_id run_seed_1 ?v = Inr ''hist:youtube.com:2024-03-05:282174230''"
    unfolding stable_doc_id_def d1 n1 t1 dm by simp
  have i2: "stable_doc_id run_seed_2 ?v = Inr ''hist:youtube.com:2024-03-05:764271405''"
    unfolding stable_doc_id_def d2 n2 t2 dm by simp
  have h3: "url_number run_seed_1 ?v \<noteq> url_number run_seed_2 ?v"
    unfolding n1 n2 by simp
  show ?thesis
    using h1 h2 i2 h3 stable_doc_id_across_runs [OF h1 h2 h3] by simp
qed

text \<open>
  Within one run, whatever values the built-in hash takes, two visits of the same domain
  and day with different URLs receive the same identifier, because infinitely many URLs
  share the 10^9 numbers.
\<close>

theorem stable_doc_id_url_collision:
  "\<forall>h. \<exists>u v s. u \<noteq> v \<and>
     stable_doc_id (utc_run h) (video_visit u) = Inr s \<and>
     stable_doc_id (utc_run h) (video_visit v) = Inr s"
proof
  fix h
  define f where "f n = url_number (utc_run h) (video_visit (replicate n CHR ''a''))" for n
  have "f n < 10 ^ 9" for n unfolding f_def url_number_def by simp
  then have "range f \<subseteq> {..< 10 ^ 9}" by auto
  then have "finite (range f)" using finite_subset by blast
  then have "\<not> inj f" using finite_imageD [of f UNIV] by auto
  then obtain m n where mn: "m \<noteq> n" "f m = f n" unfolding inj_def by blast
  let ?u = "replicate m CHR ''a''" and ?v = "replicate n CHR ''a''"
  have ne: "?u \<noteq> ?v" using mn(1) by (metis length_replicate)
  let ?s = "''hist:youtube.com:2024-03-05:'' @ dec (f m)"
  have day: "local_day_of_ms (utc_run h) (item_lastVisitTime (video_visit u)) = Inr ''2024-03-05''"
    for u by (simp add: utc_run_def utc_day_of_visit_def video_visit_def)
  have "stable_doc_id (utc_run h) (video_visit ?u) = Inr ?s"
    by (simp add: stable_doc_id_def day f_def) (simp add: video_visit_def)
  moreover have "stable_doc_id (utc_run h) (video_visit ?v) = Inr ?s"
    unfolding mn(2)
    by (simp add: stable_doc_id_def day f_def) (simp add: video_visit_def)
  ultimately show "\<exists>u v s. u \<noteq> v \<and>
     stable_doc_id (utc_run h) (video_visit u) = Inr s \<and>
     stable_doc_id (utc_run h) (video_visit v) = Inr s"
    using ne by blast
qed

section \<open>The empty result of the chat endpoint\<close>

text \<open>
  C6.  When the vector store returned candidates and the filter stage leaves none, the
  response has success true and no sources, and its answer is "No songs featuring
  {artist} found." when an artist filter was resolved (a non-empty artist name),
  otherwise "No {domain} activity found from {date}." when both a date filter and a
  domain filter are present, and otherwise "No matching results found."
\<close>

theorem no_results_response:
  assumes "docs_h \<noteq> []"
    and "retrieval_filter iter message (extract_date c message) (extract_domain message)
           top_k docs_h metas_h = Inr ([], metas, artist_filter)"
  shows "chat_structured c iter compose message top_k docs_h metas_h =
           Inr \<lparr>resp_success = True,
                resp_answer =
                  (if truthy artist_filter
                   then ''No songs featuring '' @ py_get artist_filter '''' @ '' found.''
                   else if truthy (extract_date c message) \<and> truthy (extract_domain message)
                   then ''No '' @ py_get (extract_domain message) '''' @ '' activity found from ''
                        @ py_get (extract_date c message) '''' @ ''.''
                   else ''No matching results found.''),
                resp_sources = []\<rparr>"
  using assms by (simp add: chat_structured_def no_results_answer_def Let_def)

theorem no_results_response_witness:
  "[''d1'', ''d2''] \<noteq> [] \<and>
   retrieval_filter rev ''songs by taylor momsen except youtube''
       (extract_date tuesday_clock ''songs by taylor momsen except youtube'')
       (extract_domain ''songs by taylor momsen except youtube'') 20 [''d1'', ''d2'']
       [momsen, dayne] = Inr ([], [], Some ''Taylor Momsen'') \<and>
   chat_structured tuesday_clock rev no_compose ''songs by taylor momsen except youtube'' 20
       [''d1'', ''d2''] [momsen, dayne] =
     Inr \<lparr>resp_success = True, resp_answer = ''No songs featuring Taylor Momsen found.'',
          resp_sources = []\<rparr>"
proof -
  have h1: "[''d1'', ''d2''] \<noteq> ([] :: string list)" by simp
  have h2: "retrieval_filter rev ''songs by taylor momsen except youtube''
       (extract_date tuesday_clock ''songs by taylor momsen except youtube'')
       (extract_domain ''songs by taylor momsen except youtube'') 20 [''d1'', ''d2'']
       [momsen, dayne] = Inr ([], [], Some ''Taylor Momsen'')"
    by code_simp
  show ?thesis
    using h1 h2 no_results_response [OF h1 h2, of no_compose]
    by (simp add: truthy_def py_get_def)
qed

section \<open>Failures inside the memory distiller\<close>

text \<open>
  C3.  A failure inside \<open>distill_and_store_memory\<close> does propagate to its caller when it
  is a failure of the embedding call or of the add to the memory collection: only the
  chat-completion call is inside the \<open>try\<close>.  With a completion that answers "The user
  prefers jazz piano.", a failing chat completion is swallowed and nothing is stored, a
  failing embedding call reaches the caller, and so does a failing add.
\<close>

theorem distill_unguarded_failures:
  "distill_and_store_memory chat_down ''u1'' ''what do I listen to'' ''Mostly jazz.''
     = Inr None \<and>
   distill_and_store_memory embed_down ''u1'' ''what do I listen to'' ''Mostly jazz.''
     = Inl ProviderError \<and>
   distill_and_store_memory store_down ''u1'' ''what do I listen to'' ''Mostly jazz.''
     = Inl ProviderError"
proof -
  have "\<not> nothing_durable ''The user prefers jazz piano.''" by code_simp
  then show ?thesis
    by (simp add: distill_and_store_memory_def chat_down_def embed_down_def store_down_def
        working_services_def is_Exception_def)
qed

section \<open>The shape of an extracted date\<close>

text \<open>
  C10.  The month-and-year rule prints the year as an integer, without padding: on the
  question "march 0024" the result is "24-03", which has neither the shape YYYY-MM nor
  YYYY-MM-DD (and not the length 7 by which the date filter recognises a month).
\<close>

theorem extract_date_unpadded_year:
  "extract_date c ''march 0024'' = Some ''24-03''"
  by code_simp

end
